theory Spec2Isabelle
  imports Main "HOL-Library.Char_ord" "HOL-Library.List_Lexorder" "HOL-Library.Sublist"
begin

section \<open>JavaScript numbers and dates\<close>

text \<open>
  The services compute with minute counts and with the time values of \<open>Date\<close> objects.
  Both are integers or \<open>NaN\<close>: a number is an \<open>int option\<close> and \<open>None\<close> is \<open>NaN\<close>.
  A comparison with \<open>NaN\<close> on either side is false; arithmetic with \<open>NaN\<close> gives \<open>NaN\<close>.
\<close>

type_synonym number = "int option"

definition js_lt :: "number \<Rightarrow> number \<Rightarrow> bool" where
  "js_lt a b = (case a of None \<Rightarrow> False | Some x \<Rightarrow> (case b of None \<Rightarrow> False | Some y \<Rightarrow> x < y))"

definition js_gt :: "number \<Rightarrow> number \<Rightarrow> bool" where
  "js_gt a b = js_lt b a"

definition js_ge :: "number \<Rightarrow> number \<Rightarrow> bool" where
  "js_ge a b = (case a of None \<Rightarrow> False | Some x \<Rightarrow> (case b of None \<Rightarrow> False | Some y \<Rightarrow> y \<le> x))"

definition js_mul :: "number \<Rightarrow> number \<Rightarrow> number" where
  "js_mul a b = (case a of None \<Rightarrow> None | Some x \<Rightarrow> (case b of None \<Rightarrow> None | Some y \<Rightarrow> Some (x * y)))"

definition js_add :: "number \<Rightarrow> number \<Rightarrow> number" where
  "js_add a b = (case a of None \<Rightarrow> None | Some x \<Rightarrow> (case b of None \<Rightarrow> None | Some y \<Rightarrow> Some (x + y)))"

text \<open>
  A \<open>Date\<close> is its time value, the milliseconds since the epoch; \<open>None\<close> is the invalid
  date. \<open>getUTCHours\<close> and \<open>getUTCMinutes\<close> are the hour and the minute of the UTC day
  (floored division, also before the epoch) and \<open>NaN\<close> for the invalid date.
\<close>

type_synonym Date = number

definition getUTCHours :: "Date \<Rightarrow> number" where
  "getUTCHours d = map_option (\<lambda>t. (t div 3600000) mod 24) d"

definition getUTCMinutes :: "Date \<Rightarrow> number" where
  "getUTCMinutes d = map_option (\<lambda>t. (t div 60000) mod 60) d"

section \<open>QuietHoursService: interval arithmetic\<close>

text \<open>
  \<open>periodsOverlap\<close> builds one or two sub-ranges per interval and tests every pair with
  two nested loops that return at the first hit.
\<close>

type_synonym range = "number \<times> number"

definition normalize :: "number \<Rightarrow> number \<Rightarrow> range list" where
  "normalize s e = (if js_gt e s then [(s, e)] else [(s, Some 1440), (Some 0, e)])"

fun overlap_inner :: "range \<Rightarrow> range list \<Rightarrow> bool" where
  "overlap_inner a [] = False"
| "overlap_inner a (b # bs) =
     (if js_lt (fst a) (snd b) \<and> js_lt (fst b) (snd a) then True else overlap_inner a bs)"

fun overlap_outer :: "range list \<Rightarrow> range list \<Rightarrow> bool" where
  "overlap_outer [] range2 = False"
| "overlap_outer (a # as) range2 =
     (if overlap_inner a range2 then True else overlap_outer as range2)"

definition periodsOverlap :: "number \<Rightarrow> number \<Rightarrow> number \<Rightarrow> number \<Rightarrow> bool" where
  "periodsOverlap s1 e1 s2 e2 =
     (let range1 = normalize s1 e1;
          range2 = normalize s2 e2
      in overlap_outer range1 range2)"

definition isTimeInPeriod :: "number \<Rightarrow> number \<Rightarrow> number \<Rightarrow> bool" where
  "isTimeInPeriod time start end =
     (if js_lt start end then js_ge time start \<and> js_lt time end
      else js_ge time start \<or> js_lt time end)"

subsection \<open>The specification's reading of overlap\<close>

text \<open>
  The specification's sub-ranges of an interval of minute values, its pair test, and the
  number of minutes an interval covers (an interval with equal bounds covers the day).
\<close>

definition subranges :: "int \<Rightarrow> int \<Rightarrow> (int \<times> int) list" where
  "subranges s e = (if e > s then [(s, e)] else [(s, 1440), (0, e)])"

definition overlaps_spec :: "int \<Rightarrow> int \<Rightarrow> int \<Rightarrow> int \<Rightarrow> bool" where
  "overlaps_spec s1 e1 s2 e2 =
     (\<exists>a \<in> set (subranges s1 e1). \<exists>b \<in> set (subranges s2 e2). fst a < snd b \<and> fst b < snd a)"

definition in_day :: "int \<Rightarrow> bool" where
  "in_day t = (0 \<le> t \<and> t < 1440)"

definition span :: "int \<Rightarrow> int \<Rightarrow> int" where
  "span s e = (if s < e then e - s else e - s + 1440)"

section \<open>JavaScript strings: \<open>split\<close>, \<open>Number\<close> and the time pattern\<close>

text \<open>
  \<open>js_split sep s\<close> is \<open>s.split(sep)\<close> for a one-character separator: the pieces between
  the separators, at least one piece, possibly empty ones.
\<close>

fun js_split :: "char \<Rightarrow> string \<Rightarrow> string list" where
  "js_split sep [] = [[]]"
| "js_split sep (c # cs) =
     (if c = sep then [] # js_split sep cs
      else (case js_split sep cs of [] \<Rightarrow> [[c]] | w # ws \<Rightarrow> (c # w) # ws))"

definition is_digit :: "char \<Rightarrow> bool" where
  "is_digit c = (c \<in> set ''0123456789'')"

definition digit_val :: "char \<Rightarrow> int" where
  "digit_val c = int (of_char c) - 48"

text \<open>
  \<open>js_Number s\<close> is \<open>Number(s)\<close> on the strings the service stores, the pieces of a
  validated \<open>HH:mm\<close> text: a string of decimal digits is its decimal value and the empty
  string is \<open>0\<close>. Outside these the model is not \<open>Number\<close>: every other string is taken
  to \<open>NaN\<close>, where \<open>Number\<close> also reads signs, fractions, exponents, radix prefixes and
  surrounding blanks, and a digit string is never rounded, where \<open>Number\<close> rounds above
  \<open>2^53\<close>. The properties of stored windows below are stated for well-formed rows, on
  which the model and \<open>Number\<close> agree.
\<close>

definition js_Number :: "string \<Rightarrow> number" where
  "js_Number s =
     (if list_all is_digit s then Some (foldl (\<lambda>a c. 10 * a + digit_val c) 0 s) else None)"

text \<open>
  Reading an array element by destructuring: an index past the end gives \<open>undefined\<close>,
  which arithmetic turns into \<open>NaN\<close>.
\<close>

definition element :: "number list \<Rightarrow> nat \<Rightarrow> number" where
  "element xs i = (if i < length xs then xs ! i else None)"

text \<open>
  The pattern \<open>/^([01]\d|2[0-3]):([0-5]\d)$/\<close>: without the multiline flag the anchors are
  the two ends of the string, so a match is a string of exactly five characters.
\<close>

fun timeRegex_test :: "string \<Rightarrow> bool" where
  "timeRegex_test [h1, h2, c, m1, m2] =
     (((h1 \<in> set ''01'' \<and> is_digit h2) \<or> (h1 = CHR ''2'' \<and> h2 \<in> set ''0123''))
      \<and> c = CHR '':''
      \<and> m1 \<in> set ''012345'' \<and> is_digit m2)"
| "timeRegex_test _ = False"

section \<open>Entities, errors and the repository\<close>

record QuietHourInput =
  startTime :: string
  endTime :: string

record QuietHoursEntity =
  ent_id :: string
  ent_userId :: string
  ent_startTime :: string
  ent_endTime :: string
  createdAt :: Date
  updatedAt :: Date

text \<open>
  The entity's columns \<open>id\<close>, \<open>userId\<close>, \<open>startTime\<close> and \<open>endTime\<close> are the fields
  \<open>ent_id\<close>, \<open>ent_userId\<close>, \<open>ent_startTime\<close> and \<open>ent_endTime\<close>; the repository's
  \<open>create\<close> and \<open>update\<close> are \<open>repo_create\<close> and \<open>repo_update\<close>.
  A thrown \<open>Error\<close> is its \<open>name\<close> with its message. \<open>DeliveryFailure\<close> is whatever the
  push transport throws.
\<close>

datatype error = ValidationError string | NotFoundError string | DeliveryFailure

text \<open>
  The table \<open>quiet_hours\<close> is the list of its rows. The generated primary key and the
  timestamps the database writes are arguments of the operations. A query always returns:
  failures of the database connection are not part of the model.
\<close>

type_synonym table = "QuietHoursEntity list"

definition findByUserId :: "table \<Rightarrow> string \<Rightarrow> QuietHoursEntity list" where
  "findByUserId tbl uid = sort_key ent_startTime (filter (\<lambda>e. ent_userId e = uid) tbl)"

definition repo_create ::
  "table \<Rightarrow> string \<Rightarrow> QuietHourInput \<Rightarrow> string \<Rightarrow> Date \<Rightarrow> QuietHoursEntity \<times> table" where
  "repo_create tbl uid input newId now =
     (let entity = \<lparr>ent_id = newId, ent_userId = uid, ent_startTime = startTime input,
                     ent_endTime = endTime input, createdAt = now, updatedAt = now\<rparr>
      in (entity, tbl @ [entity]))"

definition repo_update ::
  "table \<Rightarrow> string \<Rightarrow> string \<Rightarrow> QuietHourInput \<Rightarrow> Date \<Rightarrow> (error + QuietHoursEntity) \<times> table" where
  "repo_update tbl uid i input now =
     (case find (\<lambda>e. ent_id e = i \<and> ent_userId e = uid) tbl of
        None \<Rightarrow> (Inl (NotFoundError ''Quiet hour period not found.''), tbl)
      | Some entity \<Rightarrow>
          (let saved = entity\<lparr>ent_startTime := startTime input, ent_endTime := endTime input,
                              updatedAt := now\<rparr>
           in (Inr saved, map (\<lambda>e. if ent_id e = i then saved else e) tbl)))"

section \<open>QuietHoursService: validation, overlap check, evaluation\<close>

definition validateTimeFormat :: "string \<Rightarrow> string \<Rightarrow> error + unit" where
  "validateTimeFormat start end =
     (if \<not> timeRegex_test start \<or> \<not> timeRegex_test end
      then Inl (ValidationError ''Start and end times must be in HH:mm format.'')
      else if start = end
      then Inl (ValidationError ''Start and end times cannot be the same.'')
      else Inr ())"

definition timeToMinutes :: "string \<Rightarrow> number" where
  "timeToMinutes time =
     (let parts = map js_Number (js_split (CHR '':'') time);
          h = element parts 0;
          m = element parts 1
      in js_add (js_mul h (Some 60)) m)"

text \<open>The optional \<open>editingId\<close> is truthy when it is given and not the empty string.\<close>

definition truthy :: "string option \<Rightarrow> bool" where
  "truthy x = (case x of None \<Rightarrow> False | Some s \<Rightarrow> s \<noteq> [])"

fun hasOverlap_loop :: "number \<Rightarrow> number \<Rightarrow> string option \<Rightarrow> QuietHoursEntity list \<Rightarrow> bool" where
  "hasOverlap_loop inputStart inputEnd editingId [] = False"
| "hasOverlap_loop inputStart inputEnd editingId (period # rest) =
     (if truthy editingId \<and> Some (ent_id period) = editingId
      then hasOverlap_loop inputStart inputEnd editingId rest
      else if periodsOverlap inputStart inputEnd
                (timeToMinutes (ent_startTime period)) (timeToMinutes (ent_endTime period))
      then True
      else hasOverlap_loop inputStart inputEnd editingId rest)"

definition hasOverlap :: "QuietHourInput \<Rightarrow> QuietHoursEntity list \<Rightarrow> string option \<Rightarrow> bool" where
  "hasOverlap input existing editingId =
     (let inputStart = timeToMinutes (startTime input);
          inputEnd = timeToMinutes (endTime input)
      in hasOverlap_loop inputStart inputEnd editingId existing)"

fun isWithinQuietHours_loop :: "number \<Rightarrow> QuietHoursEntity list \<Rightarrow> bool" where
  "isWithinQuietHours_loop minutes [] = False"
| "isWithinQuietHours_loop minutes (period # rest) =
     (if isTimeInPeriod minutes (timeToMinutes (ent_startTime period))
           (timeToMinutes (ent_endTime period))
      then True
      else isWithinQuietHours_loop minutes rest)"

definition isWithinQuietHours :: "table \<Rightarrow> string \<Rightarrow> Date \<Rightarrow> bool" where
  "isWithinQuietHours tbl uid date =
     (let quietHours = findByUserId tbl uid
      in if length quietHours = 0 then False
         else (let minutes = js_add (js_mul (getUTCHours date) (Some 60)) (getUTCMinutes date)
               in isWithinQuietHours_loop minutes quietHours))"

definition createQuietHour ::
  "table \<Rightarrow> string \<Rightarrow> QuietHourInput \<Rightarrow> string \<Rightarrow> Date \<Rightarrow> (error + QuietHoursEntity) \<times> table" where
  "createQuietHour tbl uid input newId now =
     (case validateTimeFormat (startTime input) (endTime input) of
        Inl err \<Rightarrow> (Inl err, tbl)
      | Inr _ \<Rightarrow>
          (let existing = findByUserId tbl uid
           in if hasOverlap input existing None
              then (Inl (ValidationError ''Quiet hour periods cannot overlap.''), tbl)
              else (case repo_create tbl uid input newId now of
                      (entity, tbl') \<Rightarrow> (Inr entity, tbl'))))"

definition updateQuietHour ::
  "table \<Rightarrow> string \<Rightarrow> string \<Rightarrow> QuietHourInput \<Rightarrow> Date \<Rightarrow> (error + QuietHoursEntity) \<times> table" where
  "updateQuietHour tbl uid i input now =
     (case validateTimeFormat (startTime input) (endTime input) of
        Inl err \<Rightarrow> (Inl err, tbl)
      | Inr _ \<Rightarrow>
          (let existing = findByUserId tbl uid
           in if \<not> list_ex (\<lambda>qh. ent_id qh = i) existing
              then (Inl (NotFoundError ''Quiet hour period not found.''), tbl)
              else if hasOverlap input existing (Some i)
              then (Inl (ValidationError ''Quiet hour periods cannot overlap.''), tbl)
              else repo_update tbl uid i input now))"

subsection \<open>Shorthands for the code's tests on a stored row\<close>

text \<open>
  The expressions the loops evaluate, named: the minutes computed from the instant at the
  head of \<open>isWithinQuietHours\<close>, the test of its loop on one row, and the test of the
  loop of \<open>hasOverlap\<close> on one row. All three are built from the code's own
  \<open>timeToMinutes\<close>, \<open>isTimeInPeriod\<close> and \<open>periodsOverlap\<close>.
\<close>

definition minuteOfDay :: "Date \<Rightarrow> number" where
  "minuteOfDay date = js_add (js_mul (getUTCHours date) (Some 60)) (getUTCMinutes date)"

definition contains :: "number \<Rightarrow> QuietHoursEntity \<Rightarrow> bool" where
  "contains t p = isTimeInPeriod t (timeToMinutes (ent_startTime p)) (timeToMinutes (ent_endTime p))"

definition overlaps_window :: "QuietHourInput \<Rightarrow> QuietHoursEntity \<Rightarrow> bool" where
  "overlaps_window input p =
     periodsOverlap (timeToMinutes (startTime input)) (timeToMinutes (endTime input))
       (timeToMinutes (ent_startTime p)) (timeToMinutes (ent_endTime p))"

subsection \<open>The specification's reading of a time string\<close>

text \<open>
  The zero-padded text \<open>HH:mm\<close> of an hour and a minute, and the strings of that shape with
  the hour in 00 to 23 and the minute in 00 to 59.
\<close>

definition digit_char :: "nat \<Rightarrow> char" where
  "digit_char n = ''0123456789'' ! n"

definition two_digits :: "nat \<Rightarrow> string" where
  "two_digits n = [digit_char (n div 10), digit_char (n mod 10)]"

definition HHmm :: "nat \<Rightarrow> nat \<Rightarrow> string" where
  "HHmm h m = two_digits h @ '':'' @ two_digits m"

definition is_HHmm :: "string \<Rightarrow> bool" where
  "is_HHmm s = (\<exists>h \<in> {0..<24}. \<exists>m \<in> {0..<60}. s = HHmm h m)"

subsection \<open>The specification's reading of the evaluator and the overlap check\<close>

text \<open>
  The specification's \<open>TimeOfDay\<close> of a text is read off the format, not parsed: it is
  \<open>60 * HH + mm\<close> for the hour and minute whose zero-padded text \<open>HH:mm\<close> the string is,
  and there is none for any other string. A stored row is well formed when both its times
  have one. The minute of an instant is the minute of its UTC day. A window covers the
  minutes from its start up to its end, through midnight when the end is not after the
  start. A window contains a minute that it covers, and a candidate overlaps a window
  when the specification's sub-range test holds of their four times.
\<close>

definition TimeOfDay :: "string \<Rightarrow> int option" where
  "TimeOfDay s =
     map_option (\<lambda>hm. int (60 * fst hm + snd hm))
       (find (\<lambda>hm. s = HHmm (fst hm) (snd hm)) (List.product [0..<24] [0..<60]))"

definition wellformed :: "QuietHoursEntity \<Rightarrow> bool" where
  "wellformed p = (is_HHmm (ent_startTime p) \<and> is_HHmm (ent_endTime p))"

definition minute_of_instant :: "int \<Rightarrow> int" where
  "minute_of_instant ms = (ms div 60000) mod 1440"

definition window_minutes :: "int \<Rightarrow> int \<Rightarrow> int set" where
  "window_minutes s e = (if s < e then {s..<e} else {s..<1440} \<union> {0..<e})"

definition window_contains :: "int \<Rightarrow> QuietHoursEntity \<Rightarrow> bool" where
  "window_contains t p =
     (case TimeOfDay (ent_startTime p) of
        None \<Rightarrow> False
      | Some s \<Rightarrow> (case TimeOfDay (ent_endTime p) of
                     None \<Rightarrow> False
                   | Some e \<Rightarrow> t \<in> window_minutes s e))"

definition candidate_overlaps :: "QuietHourInput \<Rightarrow> QuietHoursEntity \<Rightarrow> bool" where
  "candidate_overlaps input p =
     (case TimeOfDay (startTime input) of None \<Rightarrow> False | Some s1 \<Rightarrow>
      (case TimeOfDay (endTime input) of None \<Rightarrow> False | Some e1 \<Rightarrow>
      (case TimeOfDay (ent_startTime p) of None \<Rightarrow> False | Some s2 \<Rightarrow>
      (case TimeOfDay (ent_endTime p) of None \<Rightarrow> False | Some e2 \<Rightarrow>
         overlaps_spec s1 e1 s2 e2))))"

section \<open>NotificationService\<close>

text \<open>The payload's \<open>data\<close> is opaque to the service.\<close>

typedecl any

record NotificationPayload =
  userId :: string
  message :: string
  data :: "any option"
  timestamp :: Date
  relevanceExpiresAt :: "Date option"

record QueuedNotification = NotificationPayload +
  queuedAt :: Date

text \<open>
  The state of the service is the module's \<open>notificationQueue\<close> map together with the
  record of every call of \<open>deliverNotification\<close>, in order. The push transport is outside
  the service: \<open>T k payload\<close> tells whether the call number \<open>k\<close> (counted from 0), made with
  \<open>payload\<close>, resolves; otherwise it throws. The body of \<open>deliverNotification\<close> in the source
  is a placeholder that always resolves, \<open>placeholder_transport\<close>.
\<close>

type_synonym transport = "nat \<Rightarrow> NotificationPayload \<Rightarrow> bool"

definition placeholder_transport :: transport where
  "placeholder_transport k payload = True"

text \<open>A transport on which every call throws, for the failure branch of the sweep.\<close>

definition rejecting_transport :: transport where
  "rejecting_transport k payload = False"

record world =
  notificationQueue :: "string \<rightharpoonup> QueuedNotification list"
  deliveryCalls :: "NotificationPayload list"

definition deliverNotification ::
  "transport \<Rightarrow> NotificationPayload \<Rightarrow> world \<Rightarrow> (error + unit) \<times> world" where
  "deliverNotification T payload w =
     (let w' = w\<lparr>deliveryCalls := deliveryCalls w @ [payload]\<rparr>
      in if T (length (deliveryCalls w)) payload then (Inr (), w') else (Inl DeliveryFailure, w'))"

definition getQueuedNotifications :: "world \<Rightarrow> string \<Rightarrow> QueuedNotification list" where
  "getQueuedNotifications w uid = (case notificationQueue w uid of None \<Rightarrow> [] | Some q \<Rightarrow> q)"

definition queueNotification :: "Date \<Rightarrow> NotificationPayload \<Rightarrow> world \<Rightarrow> world" where
  "queueNotification now payload w =
     (let userQueue = (case notificationQueue w (userId payload) of None \<Rightarrow> [] | Some q \<Rightarrow> q);
          pushed = userQueue @
            [\<lparr>userId = userId payload, message = message payload, data = data payload,
              timestamp = timestamp payload, relevanceExpiresAt = relevanceExpiresAt payload,
              queuedAt = now\<rparr>]
      in w\<lparr>notificationQueue := (notificationQueue w)(userId payload \<mapsto> pushed)\<rparr>)"

definition sendNotification ::
  "transport \<Rightarrow> table \<Rightarrow> Date \<Rightarrow> NotificationPayload \<Rightarrow> world \<Rightarrow> (error + bool) \<times> world" where
  "sendNotification T tbl now payload w =
     (let isQuiet = isWithinQuietHours tbl (userId payload) (timestamp payload)
      in if isQuiet then (Inr False, queueNotification now payload w)
         else (case deliverNotification T payload w of
                 (Inl err, w') \<Rightarrow> (Inl err, w')
               | (Inr _, w') \<Rightarrow> (Inr True, w')))"

text \<open>
  The relevance test of the sweep: a \<open>Date\<close> object is truthy, so the guard is that the
  field is present and \<open>now > relevanceExpiresAt\<close>.
\<close>

definition expired :: "Date \<Rightarrow> QueuedNotification \<Rightarrow> bool" where
  "expired now notification =
     (case relevanceExpiresAt notification of None \<Rightarrow> False | Some d \<Rightarrow> js_gt now d)"

fun sweep_loop ::
  "transport \<Rightarrow> Date \<Rightarrow> QueuedNotification list \<Rightarrow> nat \<Rightarrow> QueuedNotification list \<Rightarrow> world
     \<Rightarrow> nat \<times> QueuedNotification list \<times> world" where
  "sweep_loop T now [] deliveredCount remainingQueue w = (deliveredCount, remainingQueue, w)"
| "sweep_loop T now (notification # rest) deliveredCount remainingQueue w =
     (if expired now notification
      then sweep_loop T now rest deliveredCount remainingQueue w
      else (case deliverNotification T (NotificationPayload.truncate notification) w of
              (Inr _, w') \<Rightarrow> sweep_loop T now rest (deliveredCount + 1) remainingQueue w'
            | (Inl _, w') \<Rightarrow>
                sweep_loop T now rest deliveredCount (remainingQueue @ [notification]) w'))"

definition deliverQueuedNotifications ::
  "transport \<Rightarrow> Date \<Rightarrow> string \<Rightarrow> world \<Rightarrow> nat \<times> world" where
  "deliverQueuedNotifications T now uid w =
     (let userQueue = (case notificationQueue w uid of None \<Rightarrow> [] | Some q \<Rightarrow> q)
      in (case sweep_loop T now userQueue 0 [] w of
            (deliveredCount, remainingQueue, w') \<Rightarrow>
              if length remainingQueue > 0
              then (deliveredCount,
                    w'\<lparr>notificationQueue := (notificationQueue w')(uid \<mapsto> remainingQueue)\<rparr>)
              else (deliveredCount,
                    w'\<lparr>notificationQueue := (notificationQueue w')(uid := None)\<rparr>)))"

subsection \<open>The specification's reading of a sweep\<close>

text \<open>
  The items of a queue that are not expired at \<open>now\<close>; each of them is handed to the
  transport once, the first as call number \<open>k\<close>. \<open>retained\<close> are those whose call
  failed, in queue order, and \<open>delivered_count\<close> is the number of calls that resolved.
\<close>

definition live :: "Date \<Rightarrow> QueuedNotification list \<Rightarrow> QueuedNotification list" where
  "live now q = filter (\<lambda>n. \<not> expired now n) q"

definition resolves :: "transport \<Rightarrow> nat \<times> QueuedNotification \<Rightarrow> bool" where
  "resolves T c = T (fst c) (NotificationPayload.truncate (snd c))"

definition retained :: "transport \<Rightarrow> nat \<Rightarrow> QueuedNotification list \<Rightarrow> QueuedNotification list" where
  "retained T k q = map snd (filter (\<lambda>c. \<not> resolves T c) (enumerate k q))"

definition delivered_count :: "transport \<Rightarrow> nat \<Rightarrow> QueuedNotification list \<Rightarrow> nat" where
  "delivered_count T k q = length (filter (resolves T) (enumerate k q))"

section \<open>Interval properties\<close>

lemma js_lt_Some [simp]: "js_lt (Some x) (Some y) = (x < y)"
  by (simp add: js_lt_def)

lemma js_gt_Some [simp]: "js_gt (Some x) (Some y) = (y < x)"
  by (simp add: js_gt_def)

lemma js_ge_Some [simp]: "js_ge (Some x) (Some y) = (y \<le> x)"
  by (simp add: js_ge_def)

lemma periodsOverlap_Some:
  "periodsOverlap (Some s1) (Some e1) (Some s2) (Some e2) = overlaps_spec s1 e1 s2 e2"
  by (simp add: periodsOverlap_def normalize_def overlaps_spec_def subranges_def)

lemma overlaps_spec_touching:
  assumes "in_day s1" "in_day e1" "in_day e2" "span s1 e1 + span e1 e2 \<le> 1440"
  shows "\<not> overlaps_spec s1 e1 e1 e2"
  using assms
  by (auto simp add: overlaps_spec_def subranges_def in_day_def span_def split: if_splits)

lemma common_minute_imp_overlap:
  assumes "in_day t" "isTimeInPeriod (Some t) (Some s1) (Some e1)"
    "isTimeInPeriod (Some t) (Some s2) (Some e2)"
  shows "overlaps_spec s1 e1 s2 e2"
  using assms
  by (auto simp add: overlaps_spec_def subranges_def in_day_def isTimeInPeriod_def split: if_splits)

lemma overlap_imp_common_minute:
  assumes "in_day s1" "in_day e1" "in_day s2" "in_day e2" "overlaps_spec s1 e1 s2 e2"
  shows "\<exists>t. in_day t \<and> isTimeInPeriod (Some t) (Some s1) (Some e1)
            \<and> isTimeInPeriod (Some t) (Some s2) (Some e2)"
proof -
  from assms(5) obtain a1 a2 b1 b2 where
    ab: "(a1, a2) \<in> set (subranges s1 e1)" "(b1, b2) \<in> set (subranges s2 e2)" "a1 < b2" "b1 < a2"
    by (auto simp add: overlaps_spec_def)
  let ?t = "max a1 b1"
  have "in_day ?t \<and> isTimeInPeriod (Some ?t) (Some s1) (Some e1)
            \<and> isTimeInPeriod (Some ?t) (Some s2) (Some e2)"
    using ab assms(1-4)
    by (auto simp add: subranges_def in_day_def isTimeInPeriod_def max_def split: if_splits)
  then show ?thesis by blast
qed

text \<open>
  The sub-range test is the intersection of the two intervals as sets of minutes of the
  day: the intervals overlap exactly when some minute lies in both.
\<close>

lemma periodsOverlap_iff_common_minute:
  assumes "in_day s1" "in_day e1" "in_day s2" "in_day e2"
  shows "periodsOverlap (Some s1) (Some e1) (Some s2) (Some e2) =
     (\<exists>t. in_day t \<and> isTimeInPeriod (Some t) (Some s1) (Some e1)
           \<and> isTimeInPeriod (Some t) (Some s2) (Some e2))"
  unfolding periodsOverlap_Some
  using overlap_imp_common_minute [OF assms] common_minute_imp_overlap by blast

text \<open>
  C1. For minute values in \<open>[0, 1440)\<close>, \<open>periodsOverlap\<close> is true exactly when some
  pair of sub-ranges, one of each interval, passes the test \<open>a1 < b2 && b1 < a2\<close>, where
  an interval with \<open>e > s\<close> has the one sub-range \<open>[s, e)\<close> and any other has the two
  sub-ranges \<open>[s, 1440)\<close> and \<open>[0, e)\<close>. Two back-to-back intervals, the second starting
  where the first ends and the two together covering no more than the day, do not overlap.
\<close>

theorem periodsOverlap_iff_subrange_pair:
  "in_day s1 \<and> in_day e1 \<and> in_day s2 \<and> in_day e2 \<longrightarrow>
     periodsOverlap (Some s1) (Some e1) (Some s2) (Some e2) = overlaps_spec s1 e1 s2 e2 \<and>
     (e1 = s2 \<and> span s1 e1 + span s2 e2 \<le> 1440 \<longrightarrow>
        \<not> periodsOverlap (Some s1) (Some e1) (Some s2) (Some e2))"
  using overlaps_spec_touching [of s1 e1 e2]
  by (auto simp add: periodsOverlap_Some)

theorem periodsOverlap_iff_subrange_pair_witness:
  "periodsOverlap (Some 1320) (Some 420) (Some 360) (Some 480)
   \<and> overlaps_spec 1320 420 360 480
   \<and> \<not> periodsOverlap (Some 1320) (Some 420) (Some 420) (Some 1320)
   \<and> \<not> periodsOverlap (Some 780) (Some 900) (Some 900) (Some 960)"
  using periodsOverlap_iff_subrange_pair [of 1320 420 360 480]
    periodsOverlap_iff_subrange_pair [of 1320 420 420 1320]
    periodsOverlap_iff_subrange_pair [of 780 900 900 960]
  by (simp add: in_day_def span_def overlaps_spec_def subranges_def)

text \<open>
  C2. \<open>isTimeInPeriod\<close> on minute values: for \<open>s < e\<close> it is \<open>t >= s && t < e\<close>, for an
  interval that wraps past midnight it is \<open>t >= s || t < e\<close>, and for \<open>s = e\<close> it is true at
  every \<open>t\<close>. It is a total function: every call returns a boolean.
\<close>

theorem isTimeInPeriod_cases:
  "(s < e \<longrightarrow> isTimeInPeriod (Some t) (Some s) (Some e) = (s \<le> t \<and> t < e)) \<and>
   (e < s \<longrightarrow> isTimeInPeriod (Some t) (Some s) (Some e) = (s \<le> t \<or> t < e)) \<and>
   (s = e \<longrightarrow> isTimeInPeriod (Some t) (Some s) (Some e))"
  by (auto simp add: isTimeInPeriod_def)

theorem isTimeInPeriod_cases_witness:
  "isTimeInPeriod (Some 840) (Some 780) (Some 900)
   \<and> \<not> isTimeInPeriod (Some 960) (Some 780) (Some 900)
   \<and> isTimeInPeriod (Some 1410) (Some 1320) (Some 420)
   \<and> isTimeInPeriod (Some 390) (Some 1320) (Some 420)
   \<and> \<not> isTimeInPeriod (Some 480) (Some 1320) (Some 420)
   \<and> isTimeInPeriod (Some 5) (Some 600) (Some 600)"
  using isTimeInPeriod_cases [of 780 900 840] isTimeInPeriod_cases [of 780 900 960]
    isTimeInPeriod_cases [of 1320 420 1410] isTimeInPeriod_cases [of 1320 420 390]
    isTimeInPeriod_cases [of 1320 420 480] isTimeInPeriod_cases [of 600 600 5]
  by simp


section \<open>Time strings\<close>

lemma ex_lt_digit:
  "(c \<in> set ''01'') = (\<exists>n<2. c = digit_char n)"
  "(c \<in> set ''0123'') = (\<exists>n<4. c = digit_char n)"
  "(c \<in> set ''012345'') = (\<exists>n<6. c = digit_char n)"
  "is_digit c = (\<exists>n<10. c = digit_char n)"
  by (simp_all add: is_digit_def digit_char_def numeral_eq_Suc Ex_less_Suc eq_commute disj_ac)

lemma timeRegex_test_length: "timeRegex_test s \<Longrightarrow> \<exists>h1 h2 c m1 m2. s = [h1, h2, c, m1, m2]"
  by (cases s rule: timeRegex_test.cases) auto

lemma two_digits_split: "a < 10 \<Longrightarrow> b < 10 \<Longrightarrow> two_digits (10 * a + b) = [digit_char a, digit_char b]"
  by (simp add: two_digits_def)

lemma timeRegex_test_imp_HHmm:
  assumes "timeRegex_test s" shows "is_HHmm s"
proof -
  from assms obtain h1 h2 c m1 m2 where s: "s = [h1, h2, c, m1, m2]"
    using timeRegex_test_length by blast
  have two: "CHR ''2'' = digit_char 2" by (simp add: digit_char_def)
  note t = assms [unfolded s timeRegex_test.simps ex_lt_digit]
  from t have c: "c = CHR '':''" by blast
  from t have hh: "((\<exists>n<2. h1 = digit_char n) \<and> (\<exists>n<10. h2 = digit_char n))
      \<or> (h1 = CHR ''2'' \<and> (\<exists>n<4. h2 = digit_char n))" by blast
  have "\<exists>a b. h1 = digit_char a \<and> h2 = digit_char b \<and> 10 * a + b < 24 \<and> b < 10"
    using hh
  proof
    assume "(\<exists>n<2. h1 = digit_char n) \<and> (\<exists>n<10. h2 = digit_char n)"
    then obtain a b where ab: "a < 2" "h1 = digit_char a" "b < 10" "h2 = digit_char b" by blast
    then have "10 * a + b < 24" by simp
    with ab show ?thesis by blast
  next
    assume "h1 = CHR ''2'' \<and> (\<exists>n<4. h2 = digit_char n)"
    then obtain b where b: "h1 = digit_char 2" "b < 4" "h2 = digit_char b" using two by auto
    then have "10 * 2 + b < 24" "b < 10" by simp_all
    with b show ?thesis by blast
  qed
  then obtain a b where h: "h1 = digit_char a" "h2 = digit_char b" "10 * a + b < 24" "b < 10"
    by blast
  from t obtain x y where m: "m1 = digit_char x" "m2 = digit_char y" "x < 6" "y < 10"
    by blast
  have a: "a < 10" using h by simp
  have "10 * a + b \<in> {0..<24}" "10 * x + y \<in> {0..<60}" using h m by simp_all
  moreover have "s = HHmm (10 * a + b) (10 * x + y)"
    using s c h m a by (simp add: HHmm_def two_digits_split)
  ultimately show ?thesis unfolding is_HHmm_def by blast
qed

lemma timeRegex_test_digits:
  assumes "a < 2 \<and> b < 10 \<or> a = 2 \<and> b < 4" "x < 6" "y < 10"
  shows "timeRegex_test [digit_char a, digit_char b, CHR '':'', digit_char x, digit_char y]"
proof -
  have two: "digit_char 2 = CHR ''2''" by (simp add: digit_char_def)
  show ?thesis
    unfolding timeRegex_test.simps ex_lt_digit using assms two by blast
qed

lemma HHmm_imp_timeRegex_test:
  assumes "h < 24" "m < 60" shows "timeRegex_test (HHmm h m)"
proof -
  have "h div 10 < 2 \<and> h mod 10 < 10 \<or> h div 10 = 2 \<and> h mod 10 < 4" using assms by presburger
  moreover have "m div 10 < 6" "m mod 10 < 10" using assms by presburger+
  ultimately show ?thesis
    unfolding HHmm_def two_digits_def append.simps by (rule timeRegex_test_digits)
qed

lemma timeRegex_test_iff: "timeRegex_test s = is_HHmm s"
  using timeRegex_test_imp_HHmm HHmm_imp_timeRegex_test by (auto simp add: is_HHmm_def)


lemma digit_char_facts:
  "\<forall>n<10. is_digit (digit_char n) \<and> digit_char n \<noteq> CHR '':'' \<and> of_char (digit_char n) = 48 + n"
  by (simp add: All_less_Suc numeral_eq_Suc is_digit_def digit_char_def)

lemma digit_val_digit_char: "n < 10 \<Longrightarrow> digit_val (digit_char n) = int n"
  using digit_char_facts by (simp add: digit_val_def)

lemma is_digit_digit_char: "n < 10 \<Longrightarrow> is_digit (digit_char n)"
  using digit_char_facts by simp

lemma digit_char_not_colon: "n < 10 \<Longrightarrow> digit_char n \<noteq> CHR '':''"
  using digit_char_facts by simp

lemma js_Number_two_digits:
  assumes "a < 10" "b < 10"
  shows "js_Number [digit_char a, digit_char b] = Some (int (10 * a + b))"
  using assms by (simp add: js_Number_def is_digit_digit_char digit_val_digit_char)

lemma js_split_HHmm:
  assumes "a \<noteq> CHR '':''" "b \<noteq> CHR '':''" "c \<noteq> CHR '':''" "d \<noteq> CHR '':''"
  shows "js_split (CHR '':'') [a, b, CHR '':'', c, d] = [[a, b], [c, d]]"
  using assms by simp

text \<open>
  The code's parser agrees with the format: on the text of an hour below 24 and a minute
  below 60, \<open>timeToMinutes\<close> is \<open>60 * HH + mm\<close>.
\<close>

lemma timeToMinutes_HHmm:
  assumes "h < 24" "m < 60"
  shows "timeToMinutes (HHmm h m) = Some (int (60 * h + m))"
proof -
  have d: "h div 10 < 10" "h mod 10 < 10" "m div 10 < 10" "m mod 10 < 10" using assms by simp_all
  have s: "js_split (CHR '':'') (HHmm h m)
           = [[digit_char (h div 10), digit_char (h mod 10)], [digit_char (m div 10), digit_char (m mod 10)]]"
    unfolding HHmm_def two_digits_def append.simps
    by (rule js_split_HHmm) (simp_all add: digit_char_not_colon d)
  have "10 * (h div 10) + h mod 10 = h" "10 * (m div 10) + m mod 10 = m" by simp_all
  then show ?thesis
    unfolding timeToMinutes_def s
    by (simp add: js_Number_two_digits d element_def js_add_def js_mul_def)
qed

lemma digit_char_inj: "a < 10 \<Longrightarrow> b < 10 \<Longrightarrow> digit_char a = digit_char b \<Longrightarrow> a = b"
proof -
  assume a: "a < 10" and b: "b < 10" and e: "digit_char a = digit_char b"
  from e have "(of_char (digit_char a) :: nat) = of_char (digit_char b)" by simp
  then show "a = b" using a b digit_char_facts by simp
qed

lemma two_digits_inj:
  assumes "h < 100" "k < 100" "two_digits h = two_digits k"
  shows "h = k"
proof -
  have d: "h div 10 < 10" "h mod 10 < 10" "k div 10 < 10" "k mod 10 < 10" using assms by simp_all
  from assms(3) have "digit_char (h div 10) = digit_char (k div 10)"
      "digit_char (h mod 10) = digit_char (k mod 10)"
    by (simp_all add: two_digits_def)
  then have e: "h div 10 = k div 10" "h mod 10 = k mod 10"
    using digit_char_inj [OF d(1) d(3)] digit_char_inj [OF d(2) d(4)] by blast+
  have "h = 10 * (h div 10) + h mod 10" "k = 10 * (k div 10) + k mod 10" by simp_all
  then show ?thesis using e by simp
qed

lemma HHmm_inj:
  assumes "h < 24" "m < 60" "h' < 24" "m' < 60" "HHmm h m = HHmm h' m'"
  shows "h = h' \<and> m = m'"
proof -
  from assms(5) have "two_digits h = two_digits h'" "two_digits m = two_digits m'"
    by (simp_all add: HHmm_def two_digits_def)
  then show ?thesis using assms(1-4) two_digits_inj [of h h'] two_digits_inj [of m m'] by simp
qed

lemma find_unique:
  assumes "x \<in> set xs" "P x" "\<forall>y \<in> set xs. P y \<longrightarrow> y = x"
  shows "find P xs = Some x"
  using assms
proof (induction xs)
  case Nil
  then show ?case by simp
next
  case (Cons a xs)
  show ?case
  proof (cases "P a")
    case True
    with Cons.prems(3) have "a = x" by simp
    with True show ?thesis by simp
  next
    case False
    with Cons.prems(1,2) have "x \<in> set xs" by auto
    moreover from Cons.prems(3) have "\<forall>y \<in> set xs. P y \<longrightarrow> y = x" by simp
    ultimately have "find P xs = Some x" using Cons.IH Cons.prems(2) by blast
    with False show ?thesis by simp
  qed
qed

lemma TimeOfDay_HHmm:
  assumes "h < 24" "m < 60"
  shows "TimeOfDay (HHmm h m) = Some (int (60 * h + m))"
proof -
  have "find (\<lambda>hm. HHmm h m = HHmm (fst hm) (snd hm)) (List.product [0..<24] [0..<60]) = Some (h, m)"
  proof (rule find_unique, goal_cases)
    case 1
    have "h \<in> set [0..<24]" "m \<in> set [0..<60]" using assms by simp_all
    then show ?case unfolding set_product by (rule SigmaI)
  next
    case 2
    show ?case by (simp only: fst_conv snd_conv)
  next
    case 3
    show ?case
    proof (intro ballI impI)
    fix y assume y: "y \<in> set (List.product [0..<24] [0..<60])"
      and e: "HHmm h m = HHmm (fst y) (snd y)"
    from y have "fst y \<in> set [0..<24]" "snd y \<in> set [0..<60]"
      unfolding set_product mem_Times_iff by blast+
    then have "fst y < 24" "snd y < 60" by simp_all
    with e have "h = fst y \<and> m = snd y" using HHmm_inj [of h m "fst y" "snd y"] assms by blast
    then show "y = (h, m)" by (cases y) simp
    qed
  qed
  then show ?thesis unfolding TimeOfDay_def by (simp only: option.map fst_conv snd_conv)
qed

lemma TimeOfDay_None:
  assumes "\<not> is_HHmm s" shows "TimeOfDay s = None"
proof -
  have "\<not> (\<exists>y. y \<in> set (List.product [0..<24] [0..<60]) \<and> s = HHmm (fst y) (snd y))"
  proof
    assume "\<exists>y. y \<in> set (List.product [0..<24] [0..<60]) \<and> s = HHmm (fst y) (snd y)"
    then obtain y where y: "y \<in> set (List.product [0..<24] [0..<60])" "s = HHmm (fst y) (snd y)"
      by blast
    from y(1) have "fst y \<in> set [0..<24]" "snd y \<in> set [0..<60]"
      unfolding set_product mem_Times_iff by blast+
    then have "fst y \<in> {0..<24}" "snd y \<in> {0..<60}" by simp_all
    with y(2) have "is_HHmm s" unfolding is_HHmm_def by blast
    with assms show False by blast
  qed
  then have "find (\<lambda>hm. s = HHmm (fst hm) (snd hm)) (List.product [0..<24] [0..<60]) = None"
    unfolding find_None_iff .
  then show ?thesis unfolding TimeOfDay_def by (simp only: option.map)
qed

lemma timeToMinutes_wellformed: "is_HHmm s \<Longrightarrow> timeToMinutes s = TimeOfDay s"
  by (auto simp add: is_HHmm_def timeToMinutes_HHmm TimeOfDay_HHmm)

lemma TimeOfDay_in_day: "TimeOfDay s = Some t \<Longrightarrow> in_day t"
proof (cases "is_HHmm s")
  case True
  assume t: "TimeOfDay s = Some t"
  from True obtain h m where hm: "h < 24" "m < 60" "s = HHmm h m" by (auto simp add: is_HHmm_def)
  with t have "t = int (60 * h + m)" by (simp add: TimeOfDay_HHmm)
  with hm show ?thesis by (simp add: in_day_def)
next
  case False
  assume "TimeOfDay s = Some t"
  with False show ?thesis by (simp add: TimeOfDay_None)
qed

lemma is_HHmm_TimeOfDay: "is_HHmm s = (TimeOfDay s \<noteq> None)"
proof (cases "is_HHmm s")
  case True
  then obtain h m where "h < 24" "m < 60" "s = HHmm h m" by (auto simp add: is_HHmm_def)
  with True show ?thesis by (simp add: TimeOfDay_HHmm)
next
  case False
  then show ?thesis by (simp add: TimeOfDay_None)
qed

lemma HHmm_2200: "HHmm 22 0 = ''22:00''" by (simp add: HHmm_def two_digits_def digit_char_def)

lemma HHmm_0700: "HHmm 7 0 = ''07:00''" by (simp add: HHmm_def two_digits_def digit_char_def)

lemma HHmm_0600: "HHmm 6 0 = ''06:00''" by (simp add: HHmm_def two_digits_def digit_char_def)

lemma HHmm_0800: "HHmm 8 0 = ''08:00''" by (simp add: HHmm_def two_digits_def digit_char_def)

lemma TimeOfDay_2200: "TimeOfDay ''22:00'' = Some 1320"
  using TimeOfDay_HHmm [of 22 0] by (simp add: HHmm_2200)

lemma TimeOfDay_0700: "TimeOfDay ''07:00'' = Some 420"
  using TimeOfDay_HHmm [of 7 0] by (simp add: HHmm_0700)

lemma TimeOfDay_0600: "TimeOfDay ''06:00'' = Some 360"
  using TimeOfDay_HHmm [of 6 0] by (simp add: HHmm_0600)

lemma TimeOfDay_0800: "TimeOfDay ''08:00'' = Some 480"
  using TimeOfDay_HHmm [of 8 0] by (simp add: HHmm_0800)

section \<open>The evaluator\<close>

lemma set_findByUserId: "set (findByUserId tbl uid) = {p \<in> set tbl. ent_userId p = uid}"
  by (auto simp add: findByUserId_def)

lemma isWithinQuietHours_loop_iff:
  "isWithinQuietHours_loop minutes ps = (\<exists>p \<in> set ps. contains minutes p)"
  by (induction ps) (auto simp add: contains_def)

lemma isWithinQuietHours_iff:
  "isWithinQuietHours tbl uid date =
     (\<exists>p \<in> set tbl. ent_userId p = uid \<and> contains (minuteOfDay date) p)"
proof (cases "findByUserId tbl uid = []")
  case True
  then have "set (findByUserId tbl uid) = {}" by simp
  then have "\<not> (\<exists>p \<in> set tbl. ent_userId p = uid)" unfolding set_findByUserId by blast
  with True show ?thesis by (auto simp add: isWithinQuietHours_def)
next
  case False
  then show ?thesis
    by (auto simp add: isWithinQuietHours_def isWithinQuietHours_loop_iff set_findByUserId
        minuteOfDay_def Let_def)
qed

lemma timeToMinutes_2200: "timeToMinutes ''22:00'' = Some 1320"
  by (simp add: timeToMinutes_def js_Number_def element_def is_digit_def digit_val_def js_add_def js_mul_def)

lemma timeToMinutes_0700: "timeToMinutes ''07:00'' = Some 420"
  by (simp add: timeToMinutes_def js_Number_def element_def is_digit_def digit_val_def js_add_def js_mul_def)

lemma div_drop_remainder: "0 \<le> r \<Longrightarrow> r < c \<Longrightarrow> (c * q + r) div c = (q::int)"
  by (metis add.commute add_cancel_right_left div_mult_self2 div_pos_pos_trivial
      not_less_iff_gr_or_eq order.strict_trans1)

lemma div_hour_by_minute: "(a::int) div 3600000 = (a div 60000) div 60"
  using zdiv_zmult2_eq [of 60 a 60000] by simp

lemma getUTC_shift_days:
  "getUTCHours (Some (t + 86400000 * k)) = getUTCHours (Some t)"
  "getUTCMinutes (Some (t + 86400000 * k)) = getUTCMinutes (Some t)"
proof -
  have e1: "86400000 * k = 3600000 * (24 * k)" by simp
  have d1: "(t + 3600000 * (24 * k)) div 3600000 = t div 3600000 + 24 * k"
    using div_mult_self2 [of 3600000 t "24 * k"] by (simp only: add.commute)
  show "getUTCHours (Some (t + 86400000 * k)) = getUTCHours (Some t)"
    unfolding getUTCHours_def option.map e1 d1 by (simp only: mod_mult_self2)
  have e2: "86400000 * k = 60000 * (60 * (24 * k))" by simp
  have d2: "(t + 60000 * (60 * (24 * k))) div 60000 = t div 60000 + 60 * (24 * k)"
    using div_mult_self2 [of 60000 t "60 * (24 * k)"] by (simp only: add.commute)
  show "getUTCMinutes (Some (t + 86400000 * k)) = getUTCMinutes (Some t)"
    unfolding getUTCMinutes_def option.map e2 d2 by (simp only: mod_mult_self2)
qed

lemma getUTC_drop_seconds:
  assumes "0 \<le> r" "r < 60000"
  shows "getUTCHours (Some (60000 * q + r)) = getUTCHours (Some (60000 * q))"
    and "getUTCMinutes (Some (60000 * q + r)) = getUTCMinutes (Some (60000 * q))"
proof -
  have m: "(60000 * q + r) div 60000 = q" using assms by (rule div_drop_remainder)
  have m0: "(60000 * q) div 60000 = q" by simp
  show "getUTCHours (Some (60000 * q + r)) = getUTCHours (Some (60000 * q))"
    unfolding getUTCHours_def option.map div_hour_by_minute m m0 by (rule refl)
  show "getUTCMinutes (Some (60000 * q + r)) = getUTCMinutes (Some (60000 * q))"
    unfolding getUTCMinutes_def option.map m m0 by (rule refl)
qed

lemma isWithinQuietHours_cong:
  "getUTCHours d1 = getUTCHours d2 \<Longrightarrow> getUTCMinutes d1 = getUTCMinutes d2 \<Longrightarrow>
   isWithinQuietHours tbl uid d1 = isWithinQuietHours tbl uid d2"
  by (simp add: isWithinQuietHours_def)


lemma minute_of_day_mod: "60 * ((q div 60) mod 24) + q mod 60 = (q::int) mod 1440"
  using zmod_zmult2_eq [of 24 q 60] by simp

lemma minuteOfDay_instant: "minuteOfDay (Some ms) = Some (minute_of_instant ms)"
  unfolding minuteOfDay_def getUTCHours_def getUTCMinutes_def minute_of_instant_def
    option.map div_hour_by_minute [of ms] js_add_def js_mul_def option.case
  using minute_of_day_mod [of "ms div 60000"] by (simp only: mult.commute)

lemma in_day_minute_of_instant: "in_day (minute_of_instant ms)"
  by (simp add: in_day_def minute_of_instant_def)

lemma isTimeInPeriod_window_minutes:
  "in_day t \<Longrightarrow> isTimeInPeriod (Some t) (Some s) (Some e) = (t \<in> window_minutes s e)"
  by (auto simp add: isTimeInPeriod_def window_minutes_def in_day_def)

lemma contains_wellformed:
  assumes "wellformed p" "in_day t"
  shows "contains (Some t) p = window_contains t p"
proof -
  from assms(1) obtain s e where
    se: "TimeOfDay (ent_startTime p) = Some s" "TimeOfDay (ent_endTime p) = Some e"
    by (auto simp add: wellformed_def is_HHmm_TimeOfDay)
  with assms(1) have "timeToMinutes (ent_startTime p) = Some s" "timeToMinutes (ent_endTime p) = Some e"
    by (simp_all add: wellformed_def timeToMinutes_wellformed)
  with se assms(2) show ?thesis
    by (simp add: contains_def window_contains_def isTimeInPeriod_window_minutes)
qed

lemma isWithinQuietHours_wellformed:
  assumes "\<forall>p \<in> set tbl. ent_userId p = uid \<longrightarrow> wellformed p"
  shows "isWithinQuietHours tbl uid (Some ms) =
     (\<exists>p \<in> set tbl. ent_userId p = uid \<and> window_contains (minute_of_instant ms) p)"
  unfolding isWithinQuietHours_iff minuteOfDay_instant
  using assms contains_wellformed [OF _ in_day_minute_of_instant] by blast

lemma isWithinQuietHours_invalid_date: "\<not> isWithinQuietHours tbl uid None"
  by (simp add: isWithinQuietHours_iff minuteOfDay_def getUTCHours_def getUTCMinutes_def
      js_add_def js_mul_def contains_def isTimeInPeriod_def js_ge_def js_lt_def)

lemma scenario_A:
  assumes "ent_userId w = uid" "ent_startTime w = ''22:00''" "ent_endTime w = ''07:00''"
  shows "isWithinQuietHours [w] uid (Some ms) =
           (minute_of_instant ms \<in> window_minutes 1320 420)"
proof -
  have "wellformed w" using assms by (simp add: wellformed_def is_HHmm_TimeOfDay TimeOfDay_2200 TimeOfDay_0700)
  then have "isWithinQuietHours [w] uid (Some ms) = window_contains (minute_of_instant ms) w"
    using isWithinQuietHours_wellformed [of "[w]" uid ms] assms(1) by simp
  then show ?thesis using assms by (simp add: window_contains_def TimeOfDay_2200 TimeOfDay_0700)
qed

lemma wellformed_2200_0700:
  "wellformed \<lparr>ent_id = i, ent_userId = u, ent_startTime = ''22:00'', ent_endTime = ''07:00'',
       createdAt = c, updatedAt = d\<rparr>"
  by (simp add: wellformed_def is_HHmm_TimeOfDay TimeOfDay_2200 TimeOfDay_0700)

text \<open>
  C3. Over well-formed stored rows, \<open>isWithinQuietHours\<close> at an instant is true exactly
  when some window of the user contains the minute of the instant's UTC day; at the
  invalid date it is false, and for a user with no stored window it is false at every
  instant. For the single window 22:00 to 07:00 it is true at 23:30 and at 06:30 and false
  at 08:00.
\<close>

theorem isWithinQuietHours_any_window:
  "((\<forall>p \<in> set tbl. ent_userId p = uid \<longrightarrow> wellformed p) \<longrightarrow>
      isWithinQuietHours tbl uid (Some ms) =
        (\<exists>p \<in> set tbl. ent_userId p = uid \<and> window_contains (minute_of_instant ms) p))
   \<and> \<not> isWithinQuietHours tbl uid None
   \<and> ((\<forall>p \<in> set tbl. ent_userId p \<noteq> uid) \<longrightarrow> \<not> isWithinQuietHours tbl uid date)
   \<and> (ent_userId w = uid \<and> ent_startTime w = ''22:00'' \<and> ent_endTime w = ''07:00'' \<longrightarrow>
        (minute_of_instant t = 60 * 23 + 30 \<longrightarrow> isWithinQuietHours [w] uid (Some t))
      \<and> (minute_of_instant t = 60 * 6 + 30 \<longrightarrow> isWithinQuietHours [w] uid (Some t))
      \<and> (minute_of_instant t = 60 * 8 + 0 \<longrightarrow> \<not> isWithinQuietHours [w] uid (Some t)))"
proof (intro conjI)
  show "(\<forall>p \<in> set tbl. ent_userId p = uid \<longrightarrow> wellformed p) \<longrightarrow>
      isWithinQuietHours tbl uid (Some ms) =
        (\<exists>p \<in> set tbl. ent_userId p = uid \<and> window_contains (minute_of_instant ms) p)"
    using isWithinQuietHours_wellformed by blast
  show "\<not> isWithinQuietHours tbl uid None" by (rule isWithinQuietHours_invalid_date)
  show "(\<forall>p \<in> set tbl. ent_userId p \<noteq> uid) \<longrightarrow> \<not> isWithinQuietHours tbl uid date"
    unfolding isWithinQuietHours_iff by blast
  show "ent_userId w = uid \<and> ent_startTime w = ''22:00'' \<and> ent_endTime w = ''07:00'' \<longrightarrow>
        (minute_of_instant t = 60 * 23 + 30 \<longrightarrow> isWithinQuietHours [w] uid (Some t))
      \<and> (minute_of_instant t = 60 * 6 + 30 \<longrightarrow> isWithinQuietHours [w] uid (Some t))
      \<and> (minute_of_instant t = 60 * 8 + 0 \<longrightarrow> \<not> isWithinQuietHours [w] uid (Some t))"
    using scenario_A [of w uid t] by (simp add: window_minutes_def)
qed

theorem isWithinQuietHours_any_window_witness:
  "wellformed \<lparr>ent_id = ''w1'', ent_userId = ''u1'', ent_startTime = ''22:00'', ent_endTime = ''07:00'',
       createdAt = Some 0, updatedAt = Some 0\<rparr>
   \<and> minute_of_instant 84600000 = 60 * 23 + 30
   \<and> window_contains (minute_of_instant 84600000)
       \<lparr>ent_id = ''w1'', ent_userId = ''u1'', ent_startTime = ''22:00'', ent_endTime = ''07:00'',
         createdAt = Some 0, updatedAt = Some 0\<rparr>
   \<and> isWithinQuietHours
     [\<lparr>ent_id = ''w1'', ent_userId = ''u1'', ent_startTime = ''22:00'', ent_endTime = ''07:00'',
       createdAt = Some 0, updatedAt = Some 0\<rparr>] ''u1'' (Some 84600000)
   \<and> minute_of_instant 23400000 = 60 * 6 + 30
   \<and> isWithinQuietHours
     [\<lparr>ent_id = ''w1'', ent_userId = ''u1'', ent_startTime = ''22:00'', ent_endTime = ''07:00'',
       createdAt = Some 0, updatedAt = Some 0\<rparr>] ''u1'' (Some 23400000)
   \<and> minute_of_instant 28800000 = 60 * 8 + 0
   \<and> \<not> window_contains (minute_of_instant 28800000)
       \<lparr>ent_id = ''w1'', ent_userId = ''u1'', ent_startTime = ''22:00'', ent_endTime = ''07:00'',
         createdAt = Some 0, updatedAt = Some 0\<rparr>
   \<and> \<not> isWithinQuietHours
     [\<lparr>ent_id = ''w1'', ent_userId = ''u1'', ent_startTime = ''22:00'', ent_endTime = ''07:00'',
       createdAt = Some 0, updatedAt = Some 0\<rparr>] ''u1'' (Some 28800000)
   \<and> \<not> isWithinQuietHours [] ''u1'' (Some 84600000)"
proof -
  have m: "minute_of_instant 84600000 = 60 * 23 + 30" "minute_of_instant 23400000 = 60 * 6 + 30"
    "minute_of_instant 28800000 = 60 * 8 + 0"
    by (simp_all add: minute_of_instant_def)
  have c: "window_contains (minute_of_instant 84600000)
       \<lparr>ent_id = ''w1'', ent_userId = ''u1'', ent_startTime = ''22:00'', ent_endTime = ''07:00'',
         createdAt = Some 0, updatedAt = Some 0\<rparr>"
    "\<not> window_contains (minute_of_instant 28800000)
       \<lparr>ent_id = ''w1'', ent_userId = ''u1'', ent_startTime = ''22:00'', ent_endTime = ''07:00'',
         createdAt = Some 0, updatedAt = Some 0\<rparr>"
    by (simp_all add: minute_of_instant_def window_contains_def TimeOfDay_2200 TimeOfDay_0700
        window_minutes_def)
  show ?thesis
    using m c wellformed_2200_0700 [of "''w1''" "''u1''" "Some 0" "Some 0"]
      isWithinQuietHours_any_window
        [where tbl = "[]" and uid = "''u1''" and date = "Some 84600000" and ms = 0 and t = 84600000
           and w = "\<lparr>ent_id = ''w1'', ent_userId = ''u1'', ent_startTime = ''22:00'',
                       ent_endTime = ''07:00'', createdAt = Some 0, updatedAt = Some 0\<rparr>"]
      isWithinQuietHours_any_window
        [where tbl = "[]" and uid = "''u1''" and date = "Some 84600000" and ms = 0 and t = 23400000
           and w = "\<lparr>ent_id = ''w1'', ent_userId = ''u1'', ent_startTime = ''22:00'',
                       ent_endTime = ''07:00'', createdAt = Some 0, updatedAt = Some 0\<rparr>"]
      isWithinQuietHours_any_window
        [where tbl = "[\<lparr>ent_id = ''w1'', ent_userId = ''u1'', ent_startTime = ''22:00'',
                       ent_endTime = ''07:00'', createdAt = Some 0, updatedAt = Some 0\<rparr>]"
           and uid = "''u1''" and date = "Some 84600000" and ms = 28800000 and t = 28800000
           and w = "\<lparr>ent_id = ''w1'', ent_userId = ''u1'', ent_startTime = ''22:00'',
                       ent_endTime = ''07:00'', createdAt = Some 0, updatedAt = Some 0\<rparr>"]
    by simp
qed

text \<open>
  C10. With the stored windows fixed, two instants with the same UTC hour and the same
  UTC minute get the same answer from \<open>isWithinQuietHours\<close>: moving an instant by whole
  days, or changing its seconds and milliseconds within the minute, changes nothing.
\<close>

theorem isWithinQuietHours_reads_minute_of_day_only:
  "(getUTCHours d1 = getUTCHours d2 \<and> getUTCMinutes d1 = getUTCMinutes d2 \<longrightarrow>
      isWithinQuietHours tbl uid d1 = isWithinQuietHours tbl uid d2)
   \<and> isWithinQuietHours tbl uid (Some (t + 86400000 * k)) = isWithinQuietHours tbl uid (Some t)
   \<and> (0 \<le> r \<and> r < 60000 \<longrightarrow>
        isWithinQuietHours tbl uid (Some (60000 * q + r)) = isWithinQuietHours tbl uid (Some (60000 * q)))"
proof (intro conjI impI)
  assume "getUTCHours d1 = getUTCHours d2 \<and> getUTCMinutes d1 = getUTCMinutes d2"
  then show "isWithinQuietHours tbl uid d1 = isWithinQuietHours tbl uid d2"
    using isWithinQuietHours_cong [of d1 d2 tbl uid] by blast
next
  show "isWithinQuietHours tbl uid (Some (t + 86400000 * k)) = isWithinQuietHours tbl uid (Some t)"
    by (rule isWithinQuietHours_cong) (rule getUTC_shift_days)+
next
  assume a: "0 \<le> r \<and> r < 60000"
  have h: "getUTCHours (Some (60000 * q + r)) = getUTCHours (Some (60000 * q))"
    using a getUTC_drop_seconds(1) by blast
  have m: "getUTCMinutes (Some (60000 * q + r)) = getUTCMinutes (Some (60000 * q))"
    using a getUTC_drop_seconds(2) by blast
  show "isWithinQuietHours tbl uid (Some (60000 * q + r)) = isWithinQuietHours tbl uid (Some (60000 * q))"
    using h m by (rule isWithinQuietHours_cong)
qed



theorem isWithinQuietHours_reads_minute_of_day_only_witness:
  "getUTCHours (Some 84600000) = getUTCHours (Some 1762126259999)
   \<and> getUTCMinutes (Some 84600000) = getUTCMinutes (Some 1762126259999)
   \<and> isWithinQuietHours
     [\<lparr>ent_id = ''w1'', ent_userId = ''u1'', ent_startTime = ''22:00'', ent_endTime = ''07:00'',
       createdAt = Some 0, updatedAt = Some 0\<rparr>] ''u1'' (Some 84600000)
   = isWithinQuietHours
     [\<lparr>ent_id = ''w1'', ent_userId = ''u1'', ent_startTime = ''22:00'', ent_endTime = ''07:00'',
       createdAt = Some 0, updatedAt = Some 0\<rparr>] ''u1'' (Some 1762126259999)
   \<and> (0::int) \<le> 59999 \<and> (59999::int) < 60000
   \<and> isWithinQuietHours
     [\<lparr>ent_id = ''w1'', ent_userId = ''u1'', ent_startTime = ''22:00'', ent_endTime = ''07:00'',
       createdAt = Some 0, updatedAt = Some 0\<rparr>] ''u1'' (Some (60000 * 1410 + 59999))
   = isWithinQuietHours
     [\<lparr>ent_id = ''w1'', ent_userId = ''u1'', ent_startTime = ''22:00'', ent_endTime = ''07:00'',
       createdAt = Some 0, updatedAt = Some 0\<rparr>] ''u1'' (Some (60000 * 1410))"
proof -
  have h: "getUTCHours (Some 84600000) = getUTCHours (Some 1762126259999)
   \<and> getUTCMinutes (Some 84600000) = getUTCMinutes (Some 1762126259999)"
    by (simp add: getUTCHours_def getUTCMinutes_def)
  have r: "(0::int) \<le> 59999 \<and> (59999::int) < 60000" by simp
  show ?thesis
    using h r isWithinQuietHours_reads_minute_of_day_only [of "Some 84600000" "Some 1762126259999"
      "[\<lparr>ent_id = ''w1'', ent_userId = ''u1'', ent_startTime = ''22:00'', ent_endTime = ''07:00'',
       createdAt = Some 0, updatedAt = Some 0\<rparr>]" "''u1''" 0 0 59999 1410]
    by blast
qed

section \<open>Validation and the overlap check\<close>

lemma validateTimeFormat_failure_keeps_table:
  assumes "validateTimeFormat (startTime input) (endTime input) = Inl err"
  shows "createQuietHour tbl uid input newId now = (Inl err, tbl)"
    and "updateQuietHour tbl uid i input now = (Inl err, tbl)"
  using assms by (simp_all add: createQuietHour_def updateQuietHour_def)

text \<open>
  C5. \<open>validateTimeFormat\<close> succeeds exactly when both strings are zero-padded
  \<open>HH:mm\<close> texts with the hour in 00 to 23 and the minute in 00 to 59 and the two differ. A
  string of another shape fails with the format error, equal well-formed strings fail with
  the same-time error, and on either failure \<open>createQuietHour\<close> and \<open>updateQuietHour\<close>
  return the error with the table untouched.
\<close>

theorem validateTimeFormat_accepts_iff_HHmm:
  "(validateTimeFormat s e = Inr ()) = (is_HHmm s \<and> is_HHmm e \<and> s \<noteq> e)
   \<and> (\<not> is_HHmm s \<or> \<not> is_HHmm e \<longrightarrow>
        validateTimeFormat s e = Inl (ValidationError ''Start and end times must be in HH:mm format.''))
   \<and> (is_HHmm s \<and> s = e \<longrightarrow>
        validateTimeFormat s e = Inl (ValidationError ''Start and end times cannot be the same.''))
   \<and> (validateTimeFormat (startTime input) (endTime input) = Inl err \<longrightarrow>
        createQuietHour tbl uid input newId now = (Inl err, tbl) \<and>
        updateQuietHour tbl uid i input now = (Inl err, tbl))"
  using validateTimeFormat_failure_keeps_table(1) [of input err tbl uid newId now]
    validateTimeFormat_failure_keeps_table(2) [of input err tbl uid i now]
  by (auto simp add: validateTimeFormat_def timeRegex_test_iff)

lemma is_HHmm_0930: "is_HHmm ''09:30''"
  unfolding timeRegex_test_iff [symmetric] by (simp add: is_digit_def)

lemma not_is_HHmm_930: "\<not> is_HHmm ''9:30''"
  unfolding timeRegex_test_iff [symmetric] by simp

lemma is_HHmm_2200: "is_HHmm ''22:00''"
  unfolding timeRegex_test_iff [symmetric] by (simp add: is_digit_def)

theorem validateTimeFormat_accepts_iff_HHmm_witness:
  "validateTimeFormat ''09:30'' ''22:00'' = Inr ()
   \<and> \<not> is_HHmm ''9:30''
   \<and> validateTimeFormat ''9:30'' ''22:00''
       = Inl (ValidationError ''Start and end times must be in HH:mm format.'')
   \<and> is_HHmm ''22:00''
   \<and> validateTimeFormat ''22:00'' ''22:00''
       = Inl (ValidationError ''Start and end times cannot be the same.'')
   \<and> createQuietHour [] ''u1'' \<lparr>startTime = ''22:00'', endTime = ''22:00''\<rparr> ''w1'' (Some 0)
       = (Inl (ValidationError ''Start and end times cannot be the same.''), [])
   \<and> updateQuietHour [] ''u1'' ''w1'' \<lparr>startTime = ''22:00'', endTime = ''22:00''\<rparr> (Some 0)
       = (Inl (ValidationError ''Start and end times cannot be the same.''), [])"
  using validateTimeFormat_accepts_iff_HHmm [of "''09:30''" "''22:00''"]
    validateTimeFormat_accepts_iff_HHmm [of "''9:30''" "''22:00''"]
    validateTimeFormat_accepts_iff_HHmm [where s = "''22:00''" and e = "''22:00''"
      and input = "\<lparr>startTime = ''22:00'', endTime = ''22:00''\<rparr>"
      and err = "ValidationError ''Start and end times cannot be the same.''"
      and tbl = "[]" and uid = "''u1''" and newId = "''w1''" and now = "Some 0" and i = "''w1''"]
    is_HHmm_0930 not_is_HHmm_930 is_HHmm_2200
  by simp

lemma hasOverlap_loop_iff:
  "hasOverlap_loop s e editingId ps =
     (\<exists>p \<in> set ps. \<not> (truthy editingId \<and> Some (ent_id p) = editingId) \<and>
        periodsOverlap s e (timeToMinutes (ent_startTime p)) (timeToMinutes (ent_endTime p)))"
  by (induction ps) auto

lemma hasOverlap_iff:
  "hasOverlap input existing editingId =
     (\<exists>p \<in> set existing. \<not> (truthy editingId \<and> Some (ent_id p) = editingId) \<and> overlaps_window input p)"
  by (simp add: hasOverlap_def hasOverlap_loop_iff overlaps_window_def)

lemma validateTimeFormat_cases:
  "validateTimeFormat s e = Inr () \<or>
   validateTimeFormat s e = Inl (ValidationError ''Start and end times must be in HH:mm format.'') \<or>
   validateTimeFormat s e = Inl (ValidationError ''Start and end times cannot be the same.'')"
  by (simp add: validateTimeFormat_def)

lemma fst_repo_update_not_ValidationError: "fst (repo_update tbl uid i input now) \<noteq> Inl (ValidationError m)"
  by (simp add: repo_update_def Let_def split: option.split)

lemma createQuietHour_overlap_iff:
  "(fst (createQuietHour tbl uid input newId now) = Inl (ValidationError ''Quiet hour periods cannot overlap.''))
   = (validateTimeFormat (startTime input) (endTime input) = Inr () \<and>
      hasOverlap input (findByUserId tbl uid) None)"
  using validateTimeFormat_cases [of "startTime input" "endTime input"]
  by (auto simp add: createQuietHour_def repo_create_def Let_def split: sum.splits)

lemma updateQuietHour_overlap_iff:
  "(fst (updateQuietHour tbl uid i input now) = Inl (ValidationError ''Quiet hour periods cannot overlap.''))
   = (validateTimeFormat (startTime input) (endTime input) = Inr () \<and>
      (\<exists>qh \<in> set (findByUserId tbl uid). ent_id qh = i) \<and>
      hasOverlap input (findByUserId tbl uid) (Some i))"
  using validateTimeFormat_cases [of "startTime input" "endTime input"]
    fst_repo_update_not_ValidationError [of tbl uid i input now]
  by (auto simp add: updateQuietHour_def Let_def list_ex_iff split: sum.splits)


lemma timeToMinutes_0600: "timeToMinutes ''06:00'' = Some 360"
  by (simp add: timeToMinutes_def js_Number_def element_def is_digit_def digit_val_def js_add_def js_mul_def)

lemma timeToMinutes_0800: "timeToMinutes ''08:00'' = Some 480"
  by (simp add: timeToMinutes_def js_Number_def element_def is_digit_def digit_val_def js_add_def js_mul_def)

lemma validate_0600_0800: "validateTimeFormat ''06:00'' ''08:00'' = Inr ()"
  by (simp add: validateTimeFormat_def is_digit_def)

lemma overlap_0600_0800_2200_0700:
  "periodsOverlap (Some 360) (Some 480) (Some 1320) (Some 420)"
  by (simp add: periodsOverlap_def normalize_def)

lemma scenario_C:
  assumes "ent_userId w = uid" "ent_startTime w = ''22:00''" "ent_endTime w = ''07:00''"
    "startTime input = ''06:00''" "endTime input = ''08:00''"
  shows "createQuietHour [w] uid input newId now =
           (Inl (ValidationError ''Quiet hour periods cannot overlap.''), [w])"
proof -
  have "hasOverlap input (findByUserId [w] uid) None"
    using assms overlap_0600_0800_2200_0700
    by (simp add: hasOverlap_iff findByUserId_def overlaps_window_def truthy_def
        timeToMinutes_0600 timeToMinutes_0800 timeToMinutes_2200 timeToMinutes_0700)
  then show ?thesis using assms validate_0600_0800
    by (simp add: createQuietHour_def)
qed

lemma validateTimeFormat_Inr_iff:
  "(validateTimeFormat s e = Inr ()) = (is_HHmm s \<and> is_HHmm e \<and> s \<noteq> e)"
  by (auto simp add: validateTimeFormat_def timeRegex_test_iff)

lemma overlaps_window_wellformed:
  assumes "is_HHmm (startTime input)" "is_HHmm (endTime input)" "wellformed p"
  shows "overlaps_window input p = candidate_overlaps input p"
proof -
  from assms obtain s1 e1 s2 e2 where
    t: "TimeOfDay (startTime input) = Some s1" "TimeOfDay (endTime input) = Some e1"
       "TimeOfDay (ent_startTime p) = Some s2" "TimeOfDay (ent_endTime p) = Some e2"
    by (auto simp add: wellformed_def is_HHmm_TimeOfDay)
  with assms have "timeToMinutes (startTime input) = Some s1" "timeToMinutes (endTime input) = Some e1"
      "timeToMinutes (ent_startTime p) = Some s2" "timeToMinutes (ent_endTime p) = Some e2"
    by (simp_all add: wellformed_def timeToMinutes_wellformed)
  with t show ?thesis
    by (simp add: overlaps_window_def candidate_overlaps_def periodsOverlap_Some)
qed

lemma hasOverlap_wellformed:
  assumes "is_HHmm (startTime input)" "is_HHmm (endTime input)" "\<forall>p \<in> set existing. wellformed p"
  shows "hasOverlap input existing editingId =
     (\<exists>p \<in> set existing. \<not> (editingId = Some (ent_id p) \<and> ent_id p \<noteq> []) \<and>
        candidate_overlaps input p)"
proof -
  have "\<And>p. p \<in> set existing \<Longrightarrow> overlaps_window input p = candidate_overlaps input p"
    using assms overlaps_window_wellformed by blast
  moreover have "\<And>p. (truthy editingId \<and> Some (ent_id p) = editingId)
       = (editingId = Some (ent_id p) \<and> ent_id p \<noteq> [])"
    by (auto simp add: truthy_def)
  ultimately show ?thesis unfolding hasOverlap_iff by blast
qed

lemma wellformed_findByUserId:
  "\<forall>p \<in> set tbl. ent_userId p = uid \<longrightarrow> wellformed p \<Longrightarrow>
   \<forall>p \<in> set (findByUserId tbl uid). wellformed p"
  by (simp add: set_findByUserId)

lemma createQuietHour_overlap_wellformed:
  assumes "\<forall>p \<in> set tbl. ent_userId p = uid \<longrightarrow> wellformed p"
  shows "(fst (createQuietHour tbl uid input newId now)
            = Inl (ValidationError ''Quiet hour periods cannot overlap.''))
       = (is_HHmm (startTime input) \<and> is_HHmm (endTime input) \<and> startTime input \<noteq> endTime input \<and>
          (\<exists>p \<in> set tbl. ent_userId p = uid \<and> candidate_overlaps input p))"
proof (cases "is_HHmm (startTime input) \<and> is_HHmm (endTime input)")
  case True
  then have "hasOverlap input (findByUserId tbl uid) None =
     (\<exists>p \<in> set (findByUserId tbl uid). \<not> (None = Some (ent_id p) \<and> ent_id p \<noteq> []) \<and>
        candidate_overlaps input p)"
    using hasOverlap_wellformed [OF _ _ wellformed_findByUserId [OF assms]] by blast
  then show ?thesis
    unfolding createQuietHour_overlap_iff validateTimeFormat_Inr_iff
    by (auto simp add: set_findByUserId)
next
  case False
  then show ?thesis
    unfolding createQuietHour_overlap_iff validateTimeFormat_Inr_iff by blast
qed

lemma updateQuietHour_overlap_wellformed:
  assumes "\<forall>p \<in> set tbl. ent_userId p = uid \<longrightarrow> wellformed p" "i \<noteq> []"
  shows "(fst (updateQuietHour tbl uid i input now)
            = Inl (ValidationError ''Quiet hour periods cannot overlap.''))
       = (is_HHmm (startTime input) \<and> is_HHmm (endTime input) \<and> startTime input \<noteq> endTime input \<and>
          (\<exists>p \<in> set tbl. ent_userId p = uid \<and> ent_id p = i) \<and>
          (\<exists>p \<in> set tbl. ent_userId p = uid \<and> ent_id p \<noteq> i \<and> candidate_overlaps input p))"
proof (cases "is_HHmm (startTime input) \<and> is_HHmm (endTime input)")
  case True
  then have "hasOverlap input (findByUserId tbl uid) (Some i) =
     (\<exists>p \<in> set (findByUserId tbl uid). \<not> (Some i = Some (ent_id p) \<and> ent_id p \<noteq> []) \<and>
        candidate_overlaps input p)"
    using hasOverlap_wellformed [OF _ _ wellformed_findByUserId [OF assms(1)]] by blast
  then show ?thesis
    unfolding updateQuietHour_overlap_iff validateTimeFormat_Inr_iff
    using assms(2) by (auto simp add: set_findByUserId)
next
  case False
  then show ?thesis
    unfolding updateQuietHour_overlap_iff validateTimeFormat_Inr_iff by blast
qed

lemma is_HHmm_0600_0800: "is_HHmm ''06:00''" "is_HHmm ''08:00''"
  by (simp_all add: is_HHmm_TimeOfDay TimeOfDay_0600 TimeOfDay_0800)

text \<open>
  C4, as the code has it. For a well-formed candidate and well-formed stored rows,
  \<open>hasOverlap\<close> is true exactly when the candidate overlaps, by the specification's
  sub-range test on the times \<open>60 * HH + mm\<close>, a stored window other than the one whose id
  is the non-empty \<open>editingId\<close>. Creating fails with the overlap \<open>ValidationError\<close> exactly
  when the candidate's times are well formed and different and it overlaps a window of the
  user; updating the window \<open>i\<close> fails with it exactly when moreover \<open>i\<close> is a window of
  the user and the overlapped window is another one. The failure is the error's name and
  message and names no window. With the stored window 22:00 to 07:00 the candidate 06:00
  to 08:00 overlaps it and is rejected, the table unchanged.
\<close>

theorem overlap_check_rejects_iff_conflict:
  "(is_HHmm (startTime input) \<and> is_HHmm (endTime input) \<and> (\<forall>p \<in> set existing. wellformed p) \<longrightarrow>
      hasOverlap input existing editingId =
        (\<exists>p \<in> set existing. \<not> (editingId = Some (ent_id p) \<and> ent_id p \<noteq> []) \<and>
           candidate_overlaps input p))
   \<and> ((\<forall>p \<in> set tbl. ent_userId p = uid \<longrightarrow> wellformed p) \<longrightarrow>
        (fst (createQuietHour tbl uid input newId now)
          = Inl (ValidationError ''Quiet hour periods cannot overlap.''))
        = (is_HHmm (startTime input) \<and> is_HHmm (endTime input) \<and> startTime input \<noteq> endTime input \<and>
           (\<exists>p \<in> set tbl. ent_userId p = uid \<and> candidate_overlaps input p)))
   \<and> ((\<forall>p \<in> set tbl. ent_userId p = uid \<longrightarrow> wellformed p) \<and> i \<noteq> [] \<longrightarrow>
        (fst (updateQuietHour tbl uid i input now)
          = Inl (ValidationError ''Quiet hour periods cannot overlap.''))
        = (is_HHmm (startTime input) \<and> is_HHmm (endTime input) \<and> startTime input \<noteq> endTime input \<and>
           (\<exists>p \<in> set tbl. ent_userId p = uid \<and> ent_id p = i) \<and>
           (\<exists>p \<in> set tbl. ent_userId p = uid \<and> ent_id p \<noteq> i \<and> candidate_overlaps input p)))
   \<and> (ent_userId w = uid \<and> ent_startTime w = ''22:00'' \<and> ent_endTime w = ''07:00'' \<and>
       startTime input = ''06:00'' \<and> endTime input = ''08:00'' \<longrightarrow>
         candidate_overlaps input w \<and>
         createQuietHour [w] uid input newId now =
           (Inl (ValidationError ''Quiet hour periods cannot overlap.''), [w]))"
proof (intro conjI impI)
  assume "is_HHmm (startTime input) \<and> is_HHmm (endTime input) \<and> (\<forall>p \<in> set existing. wellformed p)"
  then show "hasOverlap input existing editingId =
        (\<exists>p \<in> set existing. \<not> (editingId = Some (ent_id p) \<and> ent_id p \<noteq> []) \<and>
           candidate_overlaps input p)"
    using hasOverlap_wellformed by blast
next
  assume "\<forall>p \<in> set tbl. ent_userId p = uid \<longrightarrow> wellformed p"
  then show "(fst (createQuietHour tbl uid input newId now)
          = Inl (ValidationError ''Quiet hour periods cannot overlap.''))
        = (is_HHmm (startTime input) \<and> is_HHmm (endTime input) \<and> startTime input \<noteq> endTime input \<and>
           (\<exists>p \<in> set tbl. ent_userId p = uid \<and> candidate_overlaps input p))"
    by (rule createQuietHour_overlap_wellformed)
next
  assume "(\<forall>p \<in> set tbl. ent_userId p = uid \<longrightarrow> wellformed p) \<and> i \<noteq> []"
  then show "(fst (updateQuietHour tbl uid i input now)
          = Inl (ValidationError ''Quiet hour periods cannot overlap.''))
        = (is_HHmm (startTime input) \<and> is_HHmm (endTime input) \<and> startTime input \<noteq> endTime input \<and>
           (\<exists>p \<in> set tbl. ent_userId p = uid \<and> ent_id p = i) \<and>
           (\<exists>p \<in> set tbl. ent_userId p = uid \<and> ent_id p \<noteq> i \<and> candidate_overlaps input p))"
    using updateQuietHour_overlap_wellformed by blast
next
  assume a: "ent_userId w = uid \<and> ent_startTime w = ''22:00'' \<and> ent_endTime w = ''07:00'' \<and>
       startTime input = ''06:00'' \<and> endTime input = ''08:00''"
  then show "candidate_overlaps input w"
    by (simp add: candidate_overlaps_def TimeOfDay_2200 TimeOfDay_0700 TimeOfDay_0600
        TimeOfDay_0800 overlaps_spec_def subranges_def)
  from a show "createQuietHour [w] uid input newId now =
           (Inl (ValidationError ''Quiet hour periods cannot overlap.''), [w])"
    using scenario_C by blast
qed

theorem overlap_check_rejects_iff_conflict_witness:
  "is_HHmm ''06:00'' \<and> is_HHmm ''08:00''
   \<and> wellformed \<lparr>ent_id = ''w1'', ent_userId = ''u1'', ent_startTime = ''22:00'',
        ent_endTime = ''07:00'', createdAt = Some 0, updatedAt = Some 0\<rparr>
   \<and> ''w1'' \<noteq> []
   \<and> candidate_overlaps \<lparr>startTime = ''06:00'', endTime = ''08:00''\<rparr>
        \<lparr>ent_id = ''w1'', ent_userId = ''u1'', ent_startTime = ''22:00'',
          ent_endTime = ''07:00'', createdAt = Some 0, updatedAt = Some 0\<rparr>
   \<and> hasOverlap \<lparr>startTime = ''06:00'', endTime = ''08:00''\<rparr>
        [\<lparr>ent_id = ''w1'', ent_userId = ''u1'', ent_startTime = ''22:00'',
          ent_endTime = ''07:00'', createdAt = Some 0, updatedAt = Some 0\<rparr>] None
   \<and> \<not> hasOverlap \<lparr>startTime = ''06:00'', endTime = ''08:00''\<rparr>
        [\<lparr>ent_id = ''w1'', ent_userId = ''u1'', ent_startTime = ''22:00'',
          ent_endTime = ''07:00'', createdAt = Some 0, updatedAt = Some 0\<rparr>] (Some ''w1'')
   \<and> createQuietHour
       [\<lparr>ent_id = ''w1'', ent_userId = ''u1'', ent_startTime = ''22:00'', ent_endTime = ''07:00'',
         createdAt = Some 0, updatedAt = Some 0\<rparr>]
       ''u1'' \<lparr>startTime = ''06:00'', endTime = ''08:00''\<rparr> ''w2'' (Some 1)
     = (Inl (ValidationError ''Quiet hour periods cannot overlap.''),
        [\<lparr>ent_id = ''w1'', ent_userId = ''u1'', ent_startTime = ''22:00'', ent_endTime = ''07:00'',
          createdAt = Some 0, updatedAt = Some 0\<rparr>])
   \<and> fst (updateQuietHour
       [\<lparr>ent_id = ''w1'', ent_userId = ''u1'', ent_startTime = ''22:00'', ent_endTime = ''07:00'',
         createdAt = Some 0, updatedAt = Some 0\<rparr>]
       ''u1'' ''w1'' \<lparr>startTime = ''06:00'', endTime = ''08:00''\<rparr> (Some 1))
     \<noteq> Inl (ValidationError ''Quiet hour periods cannot overlap.'')"
proof -
  have n: "''w1'' \<noteq> []" by simp
  show ?thesis
    using n is_HHmm_0600_0800 wellformed_2200_0700 [of "''w1''" "''u1''" "Some 0" "Some 0"]
      overlap_check_rejects_iff_conflict
        [where input = "\<lparr>startTime = ''06:00'', endTime = ''08:00''\<rparr>"
           and existing = "[\<lparr>ent_id = ''w1'', ent_userId = ''u1'', ent_startTime = ''22:00'',
                         ent_endTime = ''07:00'', createdAt = Some 0, updatedAt = Some 0\<rparr>]"
           and editingId = None
           and tbl = "[\<lparr>ent_id = ''w1'', ent_userId = ''u1'', ent_startTime = ''22:00'',
                         ent_endTime = ''07:00'', createdAt = Some 0, updatedAt = Some 0\<rparr>]"
           and uid = "''u1''" and newId = "''w2''" and now = "Some 1" and i = "''w1''"
           and w = "\<lparr>ent_id = ''w1'', ent_userId = ''u1'', ent_startTime = ''22:00'',
                       ent_endTime = ''07:00'', createdAt = Some 0, updatedAt = Some 0\<rparr>"]
      overlap_check_rejects_iff_conflict
        [where input = "\<lparr>startTime = ''06:00'', endTime = ''08:00''\<rparr>"
           and existing = "[\<lparr>ent_id = ''w1'', ent_userId = ''u1'', ent_startTime = ''22:00'',
                         ent_endTime = ''07:00'', createdAt = Some 0, updatedAt = Some 0\<rparr>]"
           and editingId = "Some ''w1''"
           and tbl = "[]"
           and uid = "''u1''" and newId = "''w2''" and now = "Some 1" and i = "''w1''"
           and w = "\<lparr>ent_id = ''w1'', ent_userId = ''u1'', ent_startTime = ''22:00'',
                       ent_endTime = ''07:00'', createdAt = Some 0, updatedAt = Some 0\<rparr>"]
    by simp
qed

text \<open>
  C4 as stated fails: the overlap failure does not carry the id of the conflicting
  window. The same candidate conflicts with the window \<open>w1\<close> in one table and with the
  window \<open>w2\<close> in another, and the two failures are the same value.
\<close>

theorem createQuietHour_overlap_failure_carries_no_id:
  "fst (createQuietHour
       [\<lparr>ent_id = ''w1'', ent_userId = ''u1'', ent_startTime = ''22:00'', ent_endTime = ''07:00'',
         createdAt = Some 0, updatedAt = Some 0\<rparr>]
       ''u1'' \<lparr>startTime = ''06:00'', endTime = ''08:00''\<rparr> ''w3'' (Some 1))
     = Inl (ValidationError ''Quiet hour periods cannot overlap.'')
   \<and> fst (createQuietHour
       [\<lparr>ent_id = ''w2'', ent_userId = ''u1'', ent_startTime = ''22:00'', ent_endTime = ''07:00'',
         createdAt = Some 0, updatedAt = Some 0\<rparr>]
       ''u1'' \<lparr>startTime = ''06:00'', endTime = ''08:00''\<rparr> ''w3'' (Some 1))
     = Inl (ValidationError ''Quiet hour periods cannot overlap.'')"
  by (simp add: scenario_C)


section \<open>The notification queue\<close>

lemma deliverNotification_simps:
  "deliverNotification T p w =
     (if T (length (deliveryCalls w)) p then Inr () else Inl DeliveryFailure,
      w\<lparr>deliveryCalls := deliveryCalls w @ [p]\<rparr>)"
  by (simp add: deliverNotification_def)

lemma sweep_loop_eq:
  "sweep_loop T now q c r w =
     (c + delivered_count T (length (deliveryCalls w)) (live now q),
      r @ retained T (length (deliveryCalls w)) (live now q),
      w\<lparr>deliveryCalls := deliveryCalls w @ map NotificationPayload.truncate (live now q)\<rparr>)"
proof (induction q arbitrary: c r w)
  case Nil
  then show ?case by (simp add: live_def delivered_count_def retained_def)
next
  case (Cons n q)
  show ?case
  proof (cases "expired now n")
    case True
    then show ?thesis using Cons.IH [of c r w] by (simp add: live_def)
  next
    case False
    show ?thesis
    proof (cases "T (length (deliveryCalls w)) (NotificationPayload.truncate n)")
      case True
      with False show ?thesis
        using Cons.IH [of "c + 1" r "w\<lparr>deliveryCalls := deliveryCalls w @ [NotificationPayload.truncate n]\<rparr>"]
        by (simp add: live_def deliverNotification_simps delivered_count_def retained_def resolves_def)
    next
      case F: False
      with False show ?thesis
        using Cons.IH [of c "r @ [n]" "w\<lparr>deliveryCalls := deliveryCalls w @ [NotificationPayload.truncate n]\<rparr>"]
        by (simp add: live_def deliverNotification_simps delivered_count_def retained_def resolves_def)
    qed
  qed
qed

lemma deliverQueuedNotifications_eq:
  "deliverQueuedNotifications T now uid w =
     (delivered_count T (length (deliveryCalls w)) (live now (getQueuedNotifications w uid)),
      \<lparr>notificationQueue = (notificationQueue w)
          (uid := (if retained T (length (deliveryCalls w)) (live now (getQueuedNotifications w uid)) = []
                   then None
                   else Some (retained T (length (deliveryCalls w)) (live now (getQueuedNotifications w uid))))),
        deliveryCalls = deliveryCalls w @
          map NotificationPayload.truncate (live now (getQueuedNotifications w uid))\<rparr>)"
  by (simp add: deliverQueuedNotifications_def sweep_loop_eq getQueuedNotifications_def Let_def)

lemma map_snd_enumerate: "map snd (enumerate k q) = q"
  by (simp add: enumerate_eq_zip)

lemma subseq_retained: "subseq (retained T k q) q"
proof -
  have "subseq (map snd (filter (\<lambda>c. \<not> resolves T c) (enumerate k q))) (map snd (enumerate k q))"
    by (intro subseq_map subseq_filter_left)
  then show ?thesis by (simp add: retained_def map_snd_enumerate)
qed

lemma set_retained: "set (retained T k q) \<subseteq> set q"
  by (auto simp add: retained_def in_set_enumerate_eq)

lemma length_delivered_retained:
  "delivered_count T k q + length (retained T k q) = length q"
proof -
  have "length (filter (resolves T) (enumerate k q))
        + length (filter (\<lambda>c. \<not> resolves T c) (enumerate k q)) = length (enumerate k q)"
    by (rule sum_length_filter_compl)
  then show ?thesis by (simp add: delivered_count_def retained_def)
qed

lemma length_live_expired:
  "length (live now q) + length (filter (expired now) q) = length q"
  using sum_length_filter_compl [of "expired now" q] by (simp add: live_def)

lemma expired_truncate:
  "NotificationPayload.truncate n = NotificationPayload.truncate m \<Longrightarrow> expired now n = expired now m"
proof -
  assume "NotificationPayload.truncate n = NotificationPayload.truncate m"
  then have "relevanceExpiresAt (NotificationPayload.truncate n)
             = relevanceExpiresAt (NotificationPayload.truncate m)" by simp
  then show ?thesis by (simp add: expired_def NotificationPayload.truncate_def)
qed

lemma getQueued_after_sweep:
  "getQueuedNotifications (snd (deliverQueuedNotifications T now uid w)) uid
     = retained T (length (deliveryCalls w)) (live now (getQueuedNotifications w uid))"
  by (simp add: deliverQueuedNotifications_eq getQueuedNotifications_def)

lemma quiet_at_2330:
  "isWithinQuietHours
     [\<lparr>ent_id = ''w1'', ent_userId = ''u1'', ent_startTime = ''22:00'', ent_endTime = ''07:00'',
       createdAt = Some 0, updatedAt = Some 0\<rparr>] ''u1'' (Some 84600000)"
  by (simp add: isWithinQuietHours_iff contains_def minuteOfDay_def timeToMinutes_2200
      timeToMinutes_0700 getUTCHours_def getUTCMinutes_def js_add_def js_mul_def isTimeInPeriod_def)

lemma not_quiet_at_0800:
  "\<not> isWithinQuietHours
     [\<lparr>ent_id = ''w1'', ent_userId = ''u1'', ent_startTime = ''22:00'', ent_endTime = ''07:00'',
       createdAt = Some 0, updatedAt = Some 0\<rparr>] ''u1'' (Some 28800000)"
  by (simp add: isWithinQuietHours_iff contains_def minuteOfDay_def timeToMinutes_2200
      timeToMinutes_0700 getUTCHours_def getUTCMinutes_def js_add_def js_mul_def isTimeInPeriod_def)


lemmas sweep_eval =
  deliverQueuedNotifications_def deliverNotification_def expired_def
  NotificationPayload.truncate_def placeholder_transport_def rejecting_transport_def
  getQueuedNotifications_def


text \<open>
  C6. When the evaluator says quiet, \<open>sendNotification\<close> appends one item, the payload
  with \<open>queuedAt = now\<close>, at the end of the queue of the payload's user, returns
  \<open>false\<close> and makes no delivery call. When it says not quiet, the payload is handed to
  the transport once and no queue changes; the transport resolving, the result is \<open>true\<close>
  (the source's placeholder always resolves), and a transport that throws is rethrown to
  the caller.
\<close>

theorem sendNotification_queues_or_delivers:
  "(isWithinQuietHours tbl (userId p) (timestamp p) \<longrightarrow>
      sendNotification T tbl now p w =
        (Inr False,
         w\<lparr>notificationQueue := (notificationQueue w)
             (userId p \<mapsto> getQueuedNotifications w (userId p) @
                [\<lparr>userId = userId p, message = message p, data = data p,
                  timestamp = timestamp p, relevanceExpiresAt = relevanceExpiresAt p,
                  queuedAt = now\<rparr>])\<rparr>)
      \<and> deliveryCalls (snd (sendNotification T tbl now p w)) = deliveryCalls w)
   \<and> (\<not> isWithinQuietHours tbl (userId p) (timestamp p) \<and> T (length (deliveryCalls w)) p \<longrightarrow>
      sendNotification T tbl now p w = (Inr True, w\<lparr>deliveryCalls := deliveryCalls w @ [p]\<rparr>)
      \<and> notificationQueue (snd (sendNotification T tbl now p w)) = notificationQueue w)
   \<and> (\<not> isWithinQuietHours tbl (userId p) (timestamp p) \<and> \<not> T (length (deliveryCalls w)) p \<longrightarrow>
      sendNotification T tbl now p w = (Inl DeliveryFailure, w\<lparr>deliveryCalls := deliveryCalls w @ [p]\<rparr>)
      \<and> notificationQueue (snd (sendNotification T tbl now p w)) = notificationQueue w)"
  by (simp add: sendNotification_def queueNotification_def getQueuedNotifications_def
      deliverNotification_simps)


theorem sendNotification_queues_or_delivers_witness:
  "sendNotification placeholder_transport
     [\<lparr>ent_id = ''w1'', ent_userId = ''u1'', ent_startTime = ''22:00'', ent_endTime = ''07:00'',
       createdAt = Some 0, updatedAt = Some 0\<rparr>]
     (Some 84600500)
     \<lparr>userId = ''u1'', message = ''hello'', data = None, timestamp = Some 84600000,
       relevanceExpiresAt = None\<rparr>
     \<lparr>notificationQueue = Map.empty, deliveryCalls = []\<rparr>
   = (Inr False,
      \<lparr>notificationQueue = [''u1'' \<mapsto>
          [\<lparr>userId = ''u1'', message = ''hello'', data = None, timestamp = Some 84600000,
            relevanceExpiresAt = None, queuedAt = Some 84600500\<rparr>]],
        deliveryCalls = []\<rparr>)
   \<and> sendNotification placeholder_transport
     [\<lparr>ent_id = ''w1'', ent_userId = ''u1'', ent_startTime = ''22:00'', ent_endTime = ''07:00'',
       createdAt = Some 0, updatedAt = Some 0\<rparr>]
     (Some 28800500)
     \<lparr>userId = ''u1'', message = ''hello'', data = None, timestamp = Some 28800000,
       relevanceExpiresAt = None\<rparr>
     \<lparr>notificationQueue = Map.empty, deliveryCalls = []\<rparr>
   = (Inr True,
      \<lparr>notificationQueue = Map.empty,
        deliveryCalls = [\<lparr>userId = ''u1'', message = ''hello'', data = None,
          timestamp = Some 28800000, relevanceExpiresAt = None\<rparr>]\<rparr>)
   \<and> sendNotification rejecting_transport
     [\<lparr>ent_id = ''w1'', ent_userId = ''u1'', ent_startTime = ''22:00'', ent_endTime = ''07:00'',
       createdAt = Some 0, updatedAt = Some 0\<rparr>]
     (Some 28800500)
     \<lparr>userId = ''u1'', message = ''hello'', data = None, timestamp = Some 28800000,
       relevanceExpiresAt = None\<rparr>
     \<lparr>notificationQueue = Map.empty, deliveryCalls = []\<rparr>
   = (Inl DeliveryFailure,
      \<lparr>notificationQueue = Map.empty,
        deliveryCalls = [\<lparr>userId = ''u1'', message = ''hello'', data = None,
          timestamp = Some 28800000, relevanceExpiresAt = None\<rparr>]\<rparr>)"
  using quiet_at_2330 not_quiet_at_0800
    sendNotification_queues_or_delivers
      [where T = placeholder_transport
         and tbl = "[\<lparr>ent_id = ''w1'', ent_userId = ''u1'', ent_startTime = ''22:00'',
                      ent_endTime = ''07:00'', createdAt = Some 0, updatedAt = Some 0\<rparr>]"
         and now = "Some 84600500"
         and p = "\<lparr>userId = ''u1'', message = ''hello'', data = None, timestamp = Some 84600000,
                    relevanceExpiresAt = None\<rparr>"
         and w = "\<lparr>notificationQueue = Map.empty, deliveryCalls = []\<rparr>"]
    sendNotification_queues_or_delivers
      [where T = placeholder_transport
         and tbl = "[\<lparr>ent_id = ''w1'', ent_userId = ''u1'', ent_startTime = ''22:00'',
                      ent_endTime = ''07:00'', createdAt = Some 0, updatedAt = Some 0\<rparr>]"
         and now = "Some 28800500"
         and p = "\<lparr>userId = ''u1'', message = ''hello'', data = None, timestamp = Some 28800000,
                    relevanceExpiresAt = None\<rparr>"
         and w = "\<lparr>notificationQueue = Map.empty, deliveryCalls = []\<rparr>"]
    sendNotification_queues_or_delivers
      [where T = rejecting_transport
         and tbl = "[\<lparr>ent_id = ''w1'', ent_userId = ''u1'', ent_startTime = ''22:00'',
                      ent_endTime = ''07:00'', createdAt = Some 0, updatedAt = Some 0\<rparr>]"
         and now = "Some 28800500"
         and p = "\<lparr>userId = ''u1'', message = ''hello'', data = None, timestamp = Some 28800000,
                    relevanceExpiresAt = None\<rparr>"
         and w = "\<lparr>notificationQueue = Map.empty, deliveryCalls = []\<rparr>"]
  by (simp add: placeholder_transport_def rejecting_transport_def getQueuedNotifications_def)

text \<open>
  C7, as the code has it. An item of the swept queue whose \<open>relevanceExpiresAt\<close> is set
  and earlier than \<open>now\<close> is skipped before any delivery: the sweep's delivery calls are
  exactly the items that are not expired, the expired item is not among them, it is not in
  the queue after the sweep, and it adds nothing to the returned number. The sweep takes no
  quiet flag and keeps no count of expired items.
\<close>

theorem sweep_drops_expired_undelivered:
  "n \<in> set (getQueuedNotifications w uid) \<and> relevanceExpiresAt n = Some d \<and> js_gt now d \<longrightarrow>
     n \<notin> set (getQueuedNotifications (snd (deliverQueuedNotifications T now uid w)) uid)
     \<and> deliveryCalls (snd (deliverQueuedNotifications T now uid w))
         = deliveryCalls w @ map NotificationPayload.truncate (live now (getQueuedNotifications w uid))
     \<and> NotificationPayload.truncate n
         \<notin> set (map NotificationPayload.truncate (live now (getQueuedNotifications w uid)))
     \<and> fst (deliverQueuedNotifications T now uid w)
         \<le> length (live now (getQueuedNotifications w uid))"
proof (intro impI)
  assume a: "n \<in> set (getQueuedNotifications w uid) \<and> relevanceExpiresAt n = Some d \<and> js_gt now d"
  then have e: "expired now n" by (simp add: expired_def)
  then have nl: "n \<notin> set (live now (getQueuedNotifications w uid))" by (simp add: live_def)
  have 1: "n \<notin> set (getQueuedNotifications (snd (deliverQueuedNotifications T now uid w)) uid)"
    using nl set_retained [of T "length (deliveryCalls w)" "live now (getQueuedNotifications w uid)"]
    unfolding getQueued_after_sweep by blast
  have 2: "deliveryCalls (snd (deliverQueuedNotifications T now uid w))
         = deliveryCalls w @ map NotificationPayload.truncate (live now (getQueuedNotifications w uid))"
    by (simp add: deliverQueuedNotifications_eq)
  have 3: "NotificationPayload.truncate n
         \<notin> set (map NotificationPayload.truncate (live now (getQueuedNotifications w uid)))"
  proof
    assume "NotificationPayload.truncate n
         \<in> set (map NotificationPayload.truncate (live now (getQueuedNotifications w uid)))"
    then obtain m where m: "m \<in> set (live now (getQueuedNotifications w uid))"
        "NotificationPayload.truncate n = NotificationPayload.truncate m" by auto
    from m(1) have "\<not> expired now m" by (simp add: live_def)
    with e expired_truncate [OF m(2), of now] show False by simp
  qed
  have 4: "fst (deliverQueuedNotifications T now uid w)
         \<le> length (live now (getQueuedNotifications w uid))"
    using length_delivered_retained [of T "length (deliveryCalls w)" "live now (getQueuedNotifications w uid)"]
    by (simp add: deliverQueuedNotifications_eq)
  from 1 2 3 4 show "n \<notin> set (getQueuedNotifications (snd (deliverQueuedNotifications T now uid w)) uid)
     \<and> deliveryCalls (snd (deliverQueuedNotifications T now uid w))
         = deliveryCalls w @ map NotificationPayload.truncate (live now (getQueuedNotifications w uid))
     \<and> NotificationPayload.truncate n
         \<notin> set (map NotificationPayload.truncate (live now (getQueuedNotifications w uid)))
     \<and> fst (deliverQueuedNotifications T now uid w)
         \<le> length (live now (getQueuedNotifications w uid))" by blast
qed


theorem sweep_drops_expired_undelivered_witness:
  "\<lparr>userId = ''u1'', message = ''sale'', data = None, timestamp = Some 0,
     relevanceExpiresAt = Some (Some 1000), queuedAt = Some 10\<rparr>
     \<in> set (getQueuedNotifications
         \<lparr>notificationQueue = [''u1'' \<mapsto>
            [\<lparr>userId = ''u1'', message = ''sale'', data = None, timestamp = Some 0,
               relevanceExpiresAt = Some (Some 1000), queuedAt = Some 10\<rparr>,
             \<lparr>userId = ''u1'', message = ''hello'', data = None, timestamp = Some 0,
               relevanceExpiresAt = None, queuedAt = Some 20\<rparr>]],
           deliveryCalls = []\<rparr> ''u1'')
   \<and> js_gt (Some 2000) (Some 1000)
   \<and> deliveryCalls (snd (deliverQueuedNotifications placeholder_transport (Some 2000) ''u1''
         \<lparr>notificationQueue = [''u1'' \<mapsto>
            [\<lparr>userId = ''u1'', message = ''sale'', data = None, timestamp = Some 0,
               relevanceExpiresAt = Some (Some 1000), queuedAt = Some 10\<rparr>,
             \<lparr>userId = ''u1'', message = ''hello'', data = None, timestamp = Some 0,
               relevanceExpiresAt = None, queuedAt = Some 20\<rparr>]],
           deliveryCalls = []\<rparr>))
       = [\<lparr>userId = ''u1'', message = ''hello'', data = None, timestamp = Some 0,
            relevanceExpiresAt = None\<rparr>]
   \<and> \<lparr>userId = ''u1'', message = ''sale'', data = None, timestamp = Some 0,
        relevanceExpiresAt = Some (Some 1000), queuedAt = Some 10\<rparr>
       \<notin> set (getQueuedNotifications
           (snd (deliverQueuedNotifications placeholder_transport (Some 2000) ''u1''
             \<lparr>notificationQueue = [''u1'' \<mapsto>
                [\<lparr>userId = ''u1'', message = ''sale'', data = None, timestamp = Some 0,
                   relevanceExpiresAt = Some (Some 1000), queuedAt = Some 10\<rparr>,
                 \<lparr>userId = ''u1'', message = ''hello'', data = None, timestamp = Some 0,
                   relevanceExpiresAt = None, queuedAt = Some 20\<rparr>]],
               deliveryCalls = []\<rparr>)) ''u1'')"
  using sweep_drops_expired_undelivered
    [where n = "\<lparr>userId = ''u1'', message = ''sale'', data = None, timestamp = Some 0,
                  relevanceExpiresAt = Some (Some 1000), queuedAt = Some 10\<rparr>"
       and d = "Some 1000" and now = "Some 2000" and uid = "''u1''" and T = placeholder_transport
       and w = "\<lparr>notificationQueue = [''u1'' \<mapsto>
            [\<lparr>userId = ''u1'', message = ''sale'', data = None, timestamp = Some 0,
               relevanceExpiresAt = Some (Some 1000), queuedAt = Some 10\<rparr>,
             \<lparr>userId = ''u1'', message = ''hello'', data = None, timestamp = Some 0,
               relevanceExpiresAt = None, queuedAt = Some 20\<rparr>]],
           deliveryCalls = []\<rparr>"]
  by (simp add: getQueuedNotifications_def live_def expired_def NotificationPayload.truncate_def)


text \<open>
  C7 as stated fails: an expired item is not counted. Sweeping a queue that holds one
  expired item returns the same number and leaves the same state as sweeping a user with
  no queue at all.
\<close>

theorem sweep_expired_item_leaves_no_count:
  "deliverQueuedNotifications placeholder_transport (Some 2000) ''u1''
     \<lparr>notificationQueue = [''u1'' \<mapsto>
        [\<lparr>userId = ''u1'', message = ''sale'', data = None, timestamp = Some 0,
           relevanceExpiresAt = Some (Some 1000), queuedAt = Some 10\<rparr>]],
       deliveryCalls = []\<rparr>
   = (0, \<lparr>notificationQueue = Map.empty, deliveryCalls = []\<rparr>)
   \<and> deliverQueuedNotifications placeholder_transport (Some 2000) ''u1''
     \<lparr>notificationQueue = Map.empty, deliveryCalls = []\<rparr>
   = (0, \<lparr>notificationQueue = Map.empty, deliveryCalls = []\<rparr>)"
  by (simp add: sweep_eval)


text \<open>
  C8. After a sweep the user's queue is the list of the items that were not expired and
  whose delivery call failed, in queue order (a subsequence of the queue before); the
  entries of other users are untouched, and the user's entry is deleted exactly when that
  list is empty. The sweep itself never fails.
\<close>

theorem sweep_retains_failed_in_order:
  "notificationQueue (snd (deliverQueuedNotifications T now uid w))
     = (notificationQueue w)
         (uid := (if retained T (length (deliveryCalls w)) (live now (getQueuedNotifications w uid)) = []
                  then None
                  else Some (retained T (length (deliveryCalls w)) (live now (getQueuedNotifications w uid)))))
   \<and> getQueuedNotifications (snd (deliverQueuedNotifications T now uid w)) uid
       = retained T (length (deliveryCalls w)) (live now (getQueuedNotifications w uid))
   \<and> subseq (getQueuedNotifications (snd (deliverQueuedNotifications T now uid w)) uid)
        (getQueuedNotifications w uid)
   \<and> (uid \<in> dom (notificationQueue (snd (deliverQueuedNotifications T now uid w))))
       = (getQueuedNotifications (snd (deliverQueuedNotifications T now uid w)) uid \<noteq> [])"
proof -
  have "subseq (retained T (length (deliveryCalls w)) (live now (getQueuedNotifications w uid)))
          (live now (getQueuedNotifications w uid))" by (rule subseq_retained)
  moreover have "subseq (live now (getQueuedNotifications w uid)) (getQueuedNotifications w uid)"
    unfolding live_def by (rule subseq_filter_left)
  ultimately have s: "subseq (retained T (length (deliveryCalls w)) (live now (getQueuedNotifications w uid)))
          (getQueuedNotifications w uid)" by (rule subseq_order.trans)
  show ?thesis
    using s unfolding getQueued_after_sweep
    by (simp add: deliverQueuedNotifications_eq)
qed


theorem sweep_retains_failed_in_order_witness:
  "getQueuedNotifications
     (snd (deliverQueuedNotifications rejecting_transport (Some 2000) ''u1''
        \<lparr>notificationQueue = [''u1'' \<mapsto>
           [\<lparr>userId = ''u1'', message = ''sale'', data = None, timestamp = Some 0,
              relevanceExpiresAt = Some (Some 1000), queuedAt = Some 10\<rparr>,
            \<lparr>userId = ''u1'', message = ''hello'', data = None, timestamp = Some 0,
              relevanceExpiresAt = None, queuedAt = Some 20\<rparr>]],
          deliveryCalls = []\<rparr>)) ''u1''
   = [\<lparr>userId = ''u1'', message = ''hello'', data = None, timestamp = Some 0,
        relevanceExpiresAt = None, queuedAt = Some 20\<rparr>]
   \<and> notificationQueue
     (snd (deliverQueuedNotifications placeholder_transport (Some 2000) ''u1''
        \<lparr>notificationQueue = [''u1'' \<mapsto>
           [\<lparr>userId = ''u1'', message = ''sale'', data = None, timestamp = Some 0,
              relevanceExpiresAt = Some (Some 1000), queuedAt = Some 10\<rparr>,
            \<lparr>userId = ''u1'', message = ''hello'', data = None, timestamp = Some 0,
              relevanceExpiresAt = None, queuedAt = Some 20\<rparr>]],
          deliveryCalls = []\<rparr>)) ''u1''
   = None"
  using sweep_retains_failed_in_order
    [where T = rejecting_transport and now = "Some 2000" and uid = "''u1''"
       and w = "\<lparr>notificationQueue = [''u1'' \<mapsto>
           [\<lparr>userId = ''u1'', message = ''sale'', data = None, timestamp = Some 0,
              relevanceExpiresAt = Some (Some 1000), queuedAt = Some 10\<rparr>,
            \<lparr>userId = ''u1'', message = ''hello'', data = None, timestamp = Some 0,
              relevanceExpiresAt = None, queuedAt = Some 20\<rparr>]],
          deliveryCalls = []\<rparr>"]
    sweep_retains_failed_in_order
    [where T = placeholder_transport and now = "Some 2000" and uid = "''u1''"
       and w = "\<lparr>notificationQueue = [''u1'' \<mapsto>
           [\<lparr>userId = ''u1'', message = ''sale'', data = None, timestamp = Some 0,
              relevanceExpiresAt = Some (Some 1000), queuedAt = Some 10\<rparr>,
            \<lparr>userId = ''u1'', message = ''hello'', data = None, timestamp = Some 0,
              relevanceExpiresAt = None, queuedAt = Some 20\<rparr>]],
          deliveryCalls = []\<rparr>"]
  by (simp add: getQueuedNotifications_def live_def expired_def retained_def resolves_def
      enumerate_eq_zip placeholder_transport_def rejecting_transport_def)


text \<open>
  C9, as the code has it. The sweep returns one number, the count of the delivery calls
  that resolved. The items kept are read from the queue afterwards, and the returned
  number, the items kept and the expired items together make up the queue before.
\<close>

theorem sweep_returns_delivered_count_only:
  "fst (deliverQueuedNotifications T now uid w)
     = delivered_count T (length (deliveryCalls w)) (live now (getQueuedNotifications w uid))
   \<and> fst (deliverQueuedNotifications T now uid w)
       + length (getQueuedNotifications (snd (deliverQueuedNotifications T now uid w)) uid)
       + length (filter (expired now) (getQueuedNotifications w uid))
     = length (getQueuedNotifications w uid)"
  using length_delivered_retained [of T "length (deliveryCalls w)" "live now (getQueuedNotifications w uid)"]
    length_live_expired [of now "getQueuedNotifications w uid"]
  unfolding getQueued_after_sweep
  by (simp add: deliverQueuedNotifications_eq)

theorem sweep_returns_delivered_count_only_witness:
  "fst (deliverQueuedNotifications rejecting_transport (Some 2000) ''u1''
        \<lparr>notificationQueue = [''u1'' \<mapsto>
           [\<lparr>userId = ''u1'', message = ''sale'', data = None, timestamp = Some 0,
              relevanceExpiresAt = Some (Some 1000), queuedAt = Some 10\<rparr>,
            \<lparr>userId = ''u1'', message = ''hello'', data = None, timestamp = Some 0,
              relevanceExpiresAt = None, queuedAt = Some 20\<rparr>]],
          deliveryCalls = []\<rparr>) = 0
   \<and> fst (deliverQueuedNotifications placeholder_transport (Some 2000) ''u1''
        \<lparr>notificationQueue = [''u1'' \<mapsto>
           [\<lparr>userId = ''u1'', message = ''sale'', data = None, timestamp = Some 0,
              relevanceExpiresAt = Some (Some 1000), queuedAt = Some 10\<rparr>,
            \<lparr>userId = ''u1'', message = ''hello'', data = None, timestamp = Some 0,
              relevanceExpiresAt = None, queuedAt = Some 20\<rparr>]],
          deliveryCalls = []\<rparr>) = 1"
  using sweep_returns_delivered_count_only
    [where T = rejecting_transport and now = "Some 2000" and uid = "''u1''"
       and w = "\<lparr>notificationQueue = [''u1'' \<mapsto>
           [\<lparr>userId = ''u1'', message = ''sale'', data = None, timestamp = Some 0,
              relevanceExpiresAt = Some (Some 1000), queuedAt = Some 10\<rparr>,
            \<lparr>userId = ''u1'', message = ''hello'', data = None, timestamp = Some 0,
              relevanceExpiresAt = None, queuedAt = Some 20\<rparr>]],
          deliveryCalls = []\<rparr>"]
    sweep_returns_delivered_count_only
    [where T = placeholder_transport and now = "Some 2000" and uid = "''u1''"
       and w = "\<lparr>notificationQueue = [''u1'' \<mapsto>
           [\<lparr>userId = ''u1'', message = ''sale'', data = None, timestamp = Some 0,
              relevanceExpiresAt = Some (Some 1000), queuedAt = Some 10\<rparr>,
            \<lparr>userId = ''u1'', message = ''hello'', data = None, timestamp = Some 0,
              relevanceExpiresAt = None, queuedAt = Some 20\<rparr>]],
          deliveryCalls = []\<rparr>"]
  by (simp add: getQueuedNotifications_def live_def expired_def delivered_count_def resolves_def
      enumerate_eq_zip placeholder_transport_def rejecting_transport_def)


text \<open>
  C9 as stated fails: the result reports no expired count and no remaining count. A queue
  with one live item and a queue with an expired item before the same live item are swept
  to the same result.
\<close>

theorem sweep_result_is_one_number:
  "deliverQueuedNotifications placeholder_transport (Some 2000) ''u1''
     \<lparr>notificationQueue = [''u1'' \<mapsto>
        [\<lparr>userId = ''u1'', message = ''hello'', data = None, timestamp = Some 0,
           relevanceExpiresAt = None, queuedAt = Some 20\<rparr>]],
       deliveryCalls = []\<rparr>
   = (1, \<lparr>notificationQueue = Map.empty,
           deliveryCalls = [\<lparr>userId = ''u1'', message = ''hello'', data = None,
             timestamp = Some 0, relevanceExpiresAt = None\<rparr>]\<rparr>)
   \<and> deliverQueuedNotifications placeholder_transport (Some 2000) ''u1''
     \<lparr>notificationQueue = [''u1'' \<mapsto>
        [\<lparr>userId = ''u1'', message = ''sale'', data = None, timestamp = Some 0,
           relevanceExpiresAt = Some (Some 1000), queuedAt = Some 10\<rparr>,
         \<lparr>userId = ''u1'', message = ''hello'', data = None, timestamp = Some 0,
           relevanceExpiresAt = None, queuedAt = Some 20\<rparr>]],
       deliveryCalls = []\<rparr>
   = (1, \<lparr>notificationQueue = Map.empty,
           deliveryCalls = [\<lparr>userId = ''u1'', message = ''hello'', data = None,
             timestamp = Some 0, relevanceExpiresAt = None\<rparr>]\<rparr>)"
  by (simp add: sweep_eval)

end
